theory Spec2Isabelle
  imports Main
begin

section \<open>JavaScript strings\<close>

text \<open>
  A JavaScript string is a sequence of UTF-16 code units. The model uses \<open>string\<close>, one
  \<open>char\<close> standing for the code unit of the same number, so it covers the strings whose
  code units are below 256. On those, \<open>length\<close> is JavaScript's \<open>.length\<close>.
\<close>

definition code :: "char \<Rightarrow> nat" where
  "code c = of_char c"

text \<open>\<open>\d\<close>, \<open>\w\<close> and \<open>\s\<close> of a regular expression without the \<open>u\<close> flag.\<close>

definition is_digit :: "char \<Rightarrow> bool" where
  "is_digit c = (48 \<le> code c \<and> code c \<le> 57)"

definition is_upper :: "char \<Rightarrow> bool" where
  "is_upper c = (65 \<le> code c \<and> code c \<le> 90)"

definition is_lower :: "char \<Rightarrow> bool" where
  "is_lower c = (97 \<le> code c \<and> code c \<le> 122)"

definition is_word :: "char \<Rightarrow> bool" where
  "is_word c = (is_upper c \<or> is_lower c \<or> is_digit c \<or> code c = 95)"

text \<open>White space below 256: tab, line feed, vertical tab, form feed, carriage return,
  space and the no-break space.\<close>

definition is_space :: "char \<Rightarrow> bool" where
  "is_space c = ((9 \<le> code c \<and> code c \<le> 13) \<or> code c = 32 \<or> code c = 160)"

text \<open>\<open>String.prototype.toLowerCase\<close>: the ASCII capitals and the Latin-1 capitals
  (all of 192..222 but the multiplication sign) move up by 32.\<close>

definition lower_char :: "char \<Rightarrow> char" where
  "lower_char c =
     (if is_upper c \<or> (192 \<le> code c \<and> code c \<le> 222 \<and> code c \<noteq> 215)
      then char_of (code c + 32) else c)"

definition toLowerCase :: "string \<Rightarrow> string" where
  "toLowerCase s = map lower_char s"

text \<open>\<open>String.prototype.toUpperCase\<close> on the ASCII letters and the Latin-1 small letters
  whose capital is below 256. (The capitals of 181, 223 and 255 lie outside the modelled
  code units; the only caller applies it to the tail of a row id.)\<close>

definition upper_char :: "char \<Rightarrow> char" where
  "upper_char c =
     (if is_lower c \<or> (224 \<le> code c \<and> code c \<le> 254 \<and> code c \<noteq> 247)
      then char_of (code c - 32) else c)"

definition toUpperCase :: "string \<Rightarrow> string" where
  "toUpperCase s = map upper_char s"

text \<open>\<open>String.prototype.trim\<close>, and the \<open>trim\<close> of validator.js with no character
  list, which strips \<open>\s\<close> at both ends.\<close>

definition trim :: "string \<Rightarrow> string" where
  "trim s = rev (dropWhile is_space (rev (dropWhile is_space s)))"

text \<open>\<open>s.includes(sub)\<close>.\<close>

fun str_includes :: "string \<Rightarrow> string \<Rightarrow> bool" where
  "str_includes [] sub = (sub = [])"
| "str_includes (c # cs) sub = (take (length sub) (c # cs) = sub \<or> str_includes cs sub)"

text \<open>\<open>s.slice(-n)\<close> for a positive \<open>n\<close>: the last \<open>n\<close> code units, or all of \<open>s\<close>.\<close>

definition slice_last :: "nat \<Rightarrow> string \<Rightarrow> string" where
  "slice_last n s = drop (length s - n) s"

text \<open>\<open>s.padStart(n, c)\<close> with a one-character pad.\<close>

definition padStart :: "nat \<Rightarrow> char \<Rightarrow> string \<Rightarrow> string" where
  "padStart n c s = replicate (n - length s) c @ s"

text \<open>The \<open>escape\<close> of validator.js: eight characters become HTML entities. The library
  replaces the ampersand first and no entity holds a character replaced later, so the
  chain of replacements is a map over the characters.\<close>

definition escape_char :: "char \<Rightarrow> string" where
  "escape_char c =
     (if c = CHR ''&'' then ''&amp;''
      else if c = CHR 0x22 then ''&quot;''
      else if c = CHR 0x27 then ''&#x27;''
      else if c = CHR ''<'' then ''&lt;''
      else if c = CHR ''>'' then ''&gt;''
      else if c = CHR ''/'' then ''&#x2F;''
      else if c = CHR 0x5C then ''&#x5C;''
      else if c = CHR 0x60 then ''&#96;''
      else [c])"

definition escape :: "string \<Rightarrow> string" where
  "escape s = concat (map escape_char s)"

text \<open>Decimal digits of a natural number: \<open>Number.prototype.toString\<close> on a row id.\<close>

fun digits_fuel :: "nat \<Rightarrow> nat \<Rightarrow> string" where
  "digits_fuel 0 n = []"
| "digits_fuel (Suc k) n =
     (if n < 10 then [char_of (48 + n)]
      else digits_fuel k (n div 10) @ [char_of (48 + n mod 10)])"

definition nat_toString :: "nat \<Rightarrow> string" where
  "nat_toString n = digits_fuel (Suc n) n"

section \<open>Regular expressions\<close>

text \<open>
  The regular expressions of the source, as data, with the backtracking semantics of
  ECMAScript: a matcher returns the positions at which a match may end, in the order in
  which backtracking tries them.
\<close>

datatype cclass = Range char char | Single char | Digit | Space | Word

datatype regex =
    Eps
  | Chr char
  | CSet "cclass list"
  | NotCSet "cclass list"
  | Seq regex regex
  | Star regex
  | Opt regex
  | NegLook regex
  | WordB
  | Bol
  | Eol

fun in_class :: "cclass \<Rightarrow> char \<Rightarrow> bool" where
  "in_class (Range a b) c = (code a \<le> code c \<and> code c \<le> code b)"
| "in_class (Single a) c = (c = a)"
| "in_class Digit c = is_digit c"
| "in_class Space c = is_space c"
| "in_class Word c = is_word c"

text \<open>With the \<open>i\<close> flag a character matches when its canonical form does; the patterns
  hold ASCII only, for which the canonical form differs on the ASCII letters alone.\<close>

definition ascii_upper :: "char \<Rightarrow> char" where
  "ascii_upper c = (if is_lower c then char_of (code c - 32) else c)"

definition ascii_lower :: "char \<Rightarrow> char" where
  "ascii_lower c = (if is_upper c then char_of (code c + 32) else c)"

definition chr_match :: "bool \<Rightarrow> char \<Rightarrow> char \<Rightarrow> bool" where
  "chr_match ic a c = (c = a \<or> (ic \<and> ascii_upper c = ascii_upper a))"

definition set_match :: "bool \<Rightarrow> cclass list \<Rightarrow> char \<Rightarrow> bool" where
  "set_match ic ks c =
     list_ex (\<lambda>k. in_class k c \<or> (ic \<and> (in_class k (ascii_upper c) \<or> in_class k (ascii_lower c)))) ks"

text \<open>A position: the character before it (\<open>None\<close> at the start) and the rest.\<close>

type_synonym pos = "char option \<times> string"

definition word_before :: "pos \<Rightarrow> bool" where
  "word_before p = (case fst p of None \<Rightarrow> False | Some c \<Rightarrow> is_word c)"

definition word_after :: "pos \<Rightarrow> bool" where
  "word_after p = (case snd p of [] \<Rightarrow> False | c # _ \<Rightarrow> is_word c)"

text \<open>An iteration of \<open>*\<close> that consumes nothing is rejected, as in ECMAScript.\<close>

fun rmatch :: "bool \<Rightarrow> regex \<Rightarrow> pos \<Rightarrow> pos list" where
  "rmatch ic Eps p = [p]"
| "rmatch ic (Chr a) (pv, []) = []"
| "rmatch ic (Chr a) (pv, x # xs) = (if chr_match ic a x then [(Some x, xs)] else [])"
| "rmatch ic (CSet ks) (pv, []) = []"
| "rmatch ic (CSet ks) (pv, x # xs) = (if set_match ic ks x then [(Some x, xs)] else [])"
| "rmatch ic (NotCSet ks) (pv, []) = []"
| "rmatch ic (NotCSet ks) (pv, x # xs) = (if set_match ic ks x then [] else [(Some x, xs)])"
| "rmatch ic (Seq a b) p = concat (map (rmatch ic b) (rmatch ic a p))"
| "rmatch ic (Star r) p =
     concat (map (rmatch ic (Star r))
       (filter (\<lambda>q. length (snd q) < length (snd p)) (rmatch ic r p))) @ [p]"
| "rmatch ic (Opt r) p = rmatch ic r p @ [p]"
| "rmatch ic (NegLook r) p = (if rmatch ic r p = [] then [p] else [])"
| "rmatch ic WordB p = (if word_before p \<noteq> word_after p then [p] else [])"
| "rmatch ic Bol p = (if fst p = None then [p] else [])"
| "rmatch ic Eol p = (if snd p = [] then [p] else [])"

text \<open>The equation for \<open>*\<close> unfolds itself; it is applied by hand.\<close>

declare rmatch.simps(9) [simp del]

definition lit :: "string \<Rightarrow> regex" where
  "lit s = foldr (\<lambda>c r. Seq (Chr c) r) s Eps"

definition seqs :: "regex list \<Rightarrow> regex" where
  "seqs rs = foldr Seq rs Eps"

definition plus_re :: "regex \<Rightarrow> regex" where
  "plus_re r = Seq r (Star r)"

text \<open>\<open>r{0,n}\<close>.\<close>

fun rep_upto :: "nat \<Rightarrow> regex \<Rightarrow> regex" where
  "rep_upto 0 r = Eps"
| "rep_upto (Suc n) r = Opt (Seq r (rep_upto n r))"

text \<open>\<open>re.test(s)\<close> for an expression without the \<open>g\<close> flag: a match from some start.\<close>

fun search :: "bool \<Rightarrow> regex \<Rightarrow> char option \<Rightarrow> string \<Rightarrow> bool" where
  "search ic r pv [] = (rmatch ic r (pv, []) \<noteq> [])"
| "search ic r pv (c # cs) = (rmatch ic r (pv, c # cs) \<noteq> [] \<or> search ic r (Some c) cs)"

definition test :: "bool \<Rightarrow> regex \<Rightarrow> string \<Rightarrow> bool" where
  "test ic r s = search ic r None s"

text \<open>\<open>s.replace(re, '')\<close> for an expression with the \<open>g\<close> flag: every match, leftmost
  first, is cut out; where there is none (or an empty one) the character is kept.\<close>

function replace_from :: "bool \<Rightarrow> regex \<Rightarrow> char option \<Rightarrow> string \<Rightarrow> string" where
  "replace_from ic r pv [] = []"
| "replace_from ic r pv (c # cs) =
     (case rmatch ic r (pv, c # cs) of
        [] \<Rightarrow> c # replace_from ic r (Some c) cs
      | q # _ \<Rightarrow>
          if length (snd q) < Suc (length cs) then replace_from ic r (fst q) (snd q)
          else c # replace_from ic r (Some c) cs)"
  by pat_completeness auto
termination
  by (relation "measure (\<lambda>(ic, r, pv, s). length s)") auto

definition remove_all :: "bool \<Rightarrow> regex \<Rightarrow> string \<Rightarrow> string" where
  "remove_all ic r s = replace_from ic r None s"

section \<open>Values crossing the HTTP and backend boundaries\<close>

datatype json =
    JNull
  | JBool bool
  | JNum int
  | JStr string
  | JArr "json list"
  | JObj "(string \<times> json) list"

fun jget :: "json \<Rightarrow> string \<Rightarrow> json option" where
  "jget (JObj kvs) k = map_of kvs k"
| "jget _ k = None"

text \<open>A response: the status, the headers set on it (name and value) and the JSON
  body.\<close>

record response =
  status :: nat
  headers :: "(string \<times> string) list"
  payload :: json

text \<open>What awaiting a promise gives: a value, or an exception with its message.\<close>

datatype 'a outcome = Returned 'a | Threw string

section \<open>Health check (contact controller)\<close>

text \<open>\<open>ContactController.healthCheck\<close>; \<open>env\<close> is \<open>config.server.environment\<close>, \<open>now\<close>
  the ISO time stamp, \<open>probe\<close> what \<open>testSupabaseConnection()\<close> gave.\<close>

definition healthCheck :: "string \<Rightarrow> string \<Rightarrow> bool outcome \<Rightarrow> response" where
  "healthCheck env now probe =
     (case probe of
        Returned dbConnected \<Rightarrow>
          (let st = (if dbConnected then ''healthy'' else ''degraded'');
               health = JObj
                 [(''status'', JStr st),
                  (''timestamp'', JStr now),
                  (''services'', JObj
                     [(''database'', JStr (if dbConnected then ''up'' else ''down'')),
                      (''api'', JStr ''up'')]),
                  (''environment'', JStr env),
                  (''version'', JStr ''1.0.0'')];
               statusCode = (if dbConnected then 200 else 503)
           in \<lparr>status = statusCode,
               headers = [],
               payload = JObj
                 [(''success'', JBool True),
                  (''message'', JStr (''Service is '' @ st)),
                  (''data'', health)]\<rparr>)
      | Threw m \<Rightarrow>
          \<lparr>status = 503,
           headers = [],
           payload = JObj
             [(''success'', JBool False),
              (''message'', JStr ''Service unavailable''),
              (''data'', JObj
                 [(''status'', JStr ''unhealthy''),
                  (''timestamp'', JStr now),
                  (''error'', JStr m)])]\<rparr>)"

text \<open>Reading a path of a JSON body.\<close>

fun jpath :: "json \<Rightarrow> string list \<Rightarrow> json option" where
  "jpath j [] = Some j"
| "jpath j (k # ks) = (case jget j k of None \<Rightarrow> None | Some j' \<Rightarrow> jpath j' ks)"

section \<open>Request bodies and the express-validator chains\<close>

text \<open>
  A parsed request body: the fields in the order the client sent them, each a string
  (a multipart form gives strings only; a JSON body with other values is outside the
  model). A missing field is \<open>undefined\<close>.
\<close>

type_synonym body = "(string \<times> string) list"

definition field :: "body \<Rightarrow> string \<Rightarrow> string option" where
  "field b k = map_of b k"

text \<open>Writing a field back, as a sanitizer of a chain does.\<close>

fun set_field :: "body \<Rightarrow> string \<Rightarrow> string \<Rightarrow> body" where
  "set_field [] k v = [(k, v)]"
| "set_field ((k', v') # b) k v = (if k' = k then (k, v) # b else (k', v') # set_field b k v)"

text \<open>
  validator.js decides what an e-mail address is and how it is normalised; the two
  functions are parameters of the model.
\<close>

record validatorjs =
  isEmail :: "string \<Rightarrow> bool"
  normalizeEmail :: "string \<Rightarrow> string"

datatype validator =
    NotEmpty
  | IsLength nat "nat option"
  | Matches bool regex
  | IsEmail
  | IsIn "string list"

datatype sanitizer = SanTrim | SanNormalizeEmail | SanEscape

text \<open>A chain item is a validator with the message of its \<open>withMessage\<close>, or a sanitizer.\<close>

datatype item = Check validator string | Sanitize sanitizer

record chain =
  path :: string
  optional :: bool
  items :: "item list"

record verror =
  err_field :: string
  err_message :: string
  err_value :: "string option"

text \<open>Standard validators and sanitizers see \<open>toString(value)\<close>: \<open>''\<close> for a missing field.\<close>

definition to_str :: "string option \<Rightarrow> string" where
  "to_str v = (case v of None \<Rightarrow> [] | Some s \<Rightarrow> s)"

fun holds :: "validatorjs \<Rightarrow> validator \<Rightarrow> string \<Rightarrow> bool" where
  "holds lib NotEmpty s = (s \<noteq> [])"
| "holds lib (IsLength lo hi) s =
     (lo \<le> length s \<and> (case hi of None \<Rightarrow> True | Some h \<Rightarrow> length s \<le> h))"
| "holds lib (Matches ic r) s = test ic r s"
| "holds lib IsEmail s = isEmail lib s"
| "holds lib (IsIn xs) s = (s \<in> set xs)"

fun sanitize :: "validatorjs \<Rightarrow> sanitizer \<Rightarrow> string \<Rightarrow> string" where
  "sanitize lib SanTrim s = trim s"
| "sanitize lib SanNormalizeEmail s = normalizeEmail lib s"
| "sanitize lib SanEscape s = escape s"

text \<open>Running the items of a chain on a value: every failing validator adds its error
  (no \<open>bail\<close>), every sanitizer replaces the value. The result is the errors in order
  and the final value.\<close>

fun run_items :: "validatorjs \<Rightarrow> string \<Rightarrow> item list \<Rightarrow> string option
    \<Rightarrow> verror list \<times> string option" where
  "run_items lib p [] v = ([], v)"
| "run_items lib p (Check c m # is) v =
     (let (es, v') = run_items lib p is v
      in if holds lib c (to_str v) then (es, v')
         else (\<lparr>err_field = p, err_message = m, err_value = v\<rparr> # es, v'))"
| "run_items lib p (Sanitize f # is) v =
     run_items lib p is (Some (sanitize lib f (to_str v)))"

text \<open>A chain on a request: an optional chain skips an undefined field; otherwise the
  final value is written back when a sanitizer ran.\<close>

definition has_sanitizer :: "item list \<Rightarrow> bool" where
  "has_sanitizer is = list_ex (\<lambda>i. case i of Sanitize _ \<Rightarrow> True | Check _ _ \<Rightarrow> False) is"

definition run_chain :: "validatorjs \<Rightarrow> chain \<Rightarrow> body \<Rightarrow> verror list \<times> body" where
  "run_chain lib ch b =
     (if optional ch \<and> field b (path ch) = None then ([], b)
      else
        (let (es, v) = run_items lib (path ch) (items ch) (field b (path ch))
         in (es, if has_sanitizer (items ch) then set_field b (path ch) (to_str v) else b)))"

text \<open>The chains of a route run in array order; \<open>validationResult(req).array()\<close> is
  the errors in that order.\<close>

fun run_chains :: "validatorjs \<Rightarrow> chain list \<Rightarrow> body \<Rightarrow> verror list \<times> body" where
  "run_chains lib [] b = ([], b)"
| "run_chains lib (ch # chs) b =
     (let (es, b') = run_chain lib ch b;
          (es', b'') = run_chains lib chs b'
      in (es @ es', b''))"

text \<open>The controllers' rendering of an error; \<open>res.json\<close> leaves out a \<open>value\<close> that is
  undefined.\<close>

definition error_json :: "verror \<Rightarrow> json" where
  "error_json e = JObj
     ([(''field'', JStr (err_field e)), (''message'', JStr (err_message e))]
      @ (case err_value e of None \<Rightarrow> [] | Some s \<Rightarrow> [(''value'', JStr s)]))"

section \<open>Career routes: validation and the positions list\<close>

definition valid_positions :: "string list" where
  "valid_positions =
     [''supply-chain'', ''executive-ceo'', ''executive-directors'', ''manager-ehs'',
      ''manager-hrd'', ''manager-accounts'', ''manager-regulatory'', ''manager-procurement'',
      ''trainee-procurement'', ''business-development'', ''manager-engineering'', ''deputy-qa'',
      ''other'']"

definition letter_classes :: "cclass list" where
  "letter_classes = [Range CHR ''a'' CHR ''z'', Range CHR ''A'' CHR ''Z'']"

text \<open>\<open>/^[a-zA-Z\s.'-]+$/\<close>\<close>

definition career_name_re :: regex where
  "career_name_re =
     seqs [Bol, plus_re (CSet (letter_classes @ [Space, Single CHR ''.'', Single CHR 0x27, Single CHR ''-''])), Eol]"

text \<open>\<open>/^[\+]?[\d\s\-\(\)]+$/\<close>\<close>

definition phone_re :: regex where
  "phone_re =
     seqs [Bol, Opt (CSet [Single CHR ''+'']),
           plus_re (CSet [Digit, Space, Single CHR ''-'', Single CHR ''('', Single CHR '')'']), Eol]"

definition validateCareerApplication :: "chain list" where
  "validateCareerApplication =
     [\<lparr>path = ''fullName'', optional = False, items =
         [Sanitize SanTrim,
          Check NotEmpty ''Full name is required'',
          Check (IsLength 2 (Some 100)) ''Full name must be between 2 and 100 characters'',
          Check (Matches False career_name_re)
            ''Full name can only contain letters, spaces, dots, hyphens, and apostrophes'']\<rparr>,
      \<lparr>path = ''email'', optional = False, items =
         [Sanitize SanTrim,
          Check NotEmpty ''Email is required'',
          Check IsEmail ''Please provide a valid email address'',
          Sanitize SanNormalizeEmail]\<rparr>,
      \<lparr>path = ''phone'', optional = False, items =
         [Sanitize SanTrim,
          Check NotEmpty ''Phone number is required'',
          Check (IsLength 10 (Some 15)) ''Phone number must be between 10 and 15 digits'',
          Check (Matches False phone_re) ''Please provide a valid phone number'']\<rparr>,
      \<lparr>path = ''location'', optional = False, items =
         [Sanitize SanTrim,
          Check NotEmpty ''Current location is required'',
          Check (IsLength 2 (Some 100)) ''Location must be between 2 and 100 characters'']\<rparr>,
      \<lparr>path = ''position'', optional = False, items =
         [Check NotEmpty ''Position is required'',
          Check (IsIn valid_positions) ''Please select a valid position'']\<rparr>,
      \<lparr>path = ''experience'', optional = False, items =
         [Check NotEmpty ''Experience is required'',
          Check (IsIn [''0-1'', ''2-3'', ''4-5'', ''6-7'', ''8-10'', ''10+''])
            ''Please select a valid experience range'']\<rparr>,
      \<lparr>path = ''qualification'', optional = False, items =
         [Check NotEmpty ''Qualification is required'',
          Check (IsIn [''bpharm'', ''mpharm'', ''mba'', ''bsc'', ''msc'', ''bcom'', ''mcom'', ''ca'',
                       ''engineering'', ''other''])
            ''Please select a valid qualification'']\<rparr>,
      \<lparr>path = ''coverLetter'', optional = True, items =
         [Sanitize SanTrim,
          Check (IsLength 0 (Some 2000)) ''Cover letter must not exceed 2000 characters'']\<rparr>,
      \<lparr>path = ''consent'', optional = False, items =
         [Check NotEmpty ''You must agree to the terms and conditions'']\<rparr>]"

text \<open>\<open>CareerController.getAvailablePositions\<close>. The dash in the eighth label is
  U+2013, written here as its three UTF-8 bytes.\<close>

definition positions :: "(string \<times> string) list" where
  "positions =
     [(''supply-chain'', ''Supply Chain Dy. Managers''),
      (''executive-ceo'', ''Executive Assistant to CEO''),
      (''executive-directors'', ''Executive Assistant to Directors''),
      (''manager-ehs'', ''Manager - EHS''),
      (''manager-hrd'', ''Manager HRD''),
      (''manager-accounts'', ''Manager Accounts''),
      (''manager-regulatory'', ''Manager Regulatory Affairs''),
      (''manager-procurement'', ''Manager '' @ [CHR 0xE2, CHR 0x80, CHR 0x93] @ '' API Procurement''),
      (''trainee-procurement'', ''Trainee- Procurement''),
      (''business-development'', ''Business Development Manager''),
      (''manager-engineering'', ''Manager-Engineering''),
      (''deputy-qa'', ''Deputy Manager-QA Validation''),
      (''other'', ''Other'')]"

definition getAvailablePositions :: response where
  "getAvailablePositions =
     \<lparr>status = 200,
      headers = [],
      payload = JObj
        [(''success'', JBool True),
         (''message'', JStr ''Available positions retrieved successfully''),
         (''data'', JArr (map (\<lambda>(v, l). JObj [(''value'', JStr v), (''label'', JStr l)]) positions))]\<rparr>"

text \<open>The \<open>value\<close> fields of the list a positions response carries.\<close>

fun value_of :: "json \<Rightarrow> string list" where
  "value_of j = (case jget j ''value'' of Some (JStr v) \<Rightarrow> [v] | _ \<Rightarrow> [])"

definition position_codes :: "response \<Rightarrow> string list" where
  "position_codes r =
     (case jget (payload r) ''data'' of Some (JArr js) \<Rightarrow> concat (map value_of js) | _ \<Rightarrow> [])"

text \<open>The chain of the route's validator for a field, and the errors it raises on a
  submitted value.\<close>

definition chain_for :: "chain list \<Rightarrow> string \<Rightarrow> chain option" where
  "chain_for chs p = find (\<lambda>ch. path ch = p) chs"

definition position_errors :: "validatorjs \<Rightarrow> string \<Rightarrow> verror list" where
  "position_errors lib p =
     (case chain_for validateCareerApplication ''position'' of
        None \<Rightarrow> []
      | Some ch \<Rightarrow> fst (run_chain lib ch [(''position'', p)]))"

section \<open>Sanitizers\<close>

text \<open>\<open>/<script\b[^<]*(?:(?!<\/script>)<[^<]*)*<\/script>/gi\<close> and the same for
  \<open>iframe\<close>.\<close>

definition tag_re :: "string \<Rightarrow> regex" where
  "tag_re name =
     seqs [lit (''<'' @ name), WordB, Star (NotCSet [Single CHR ''<'']),
           Star (seqs [NegLook (lit (''</'' @ name @ ''>'')), Chr CHR ''<'',
                       Star (NotCSet [Single CHR ''<''])]),
           lit (''</'' @ name @ ''>'')]"

definition script_re :: regex where
  "script_re = tag_re ''script''"

definition iframe_re :: regex where
  "iframe_re = tag_re ''iframe''"

text \<open>\<open>/javascript:/gi\<close>\<close>

definition javascript_re :: regex where
  "javascript_re = lit ''javascript:''"

text \<open>\<open>/on\w+\s*=/gi\<close>\<close>

definition handler_re :: regex where
  "handler_re = seqs [lit ''on'', plus_re (CSet [Word]), Star (CSet [Space]), Chr CHR ''='']"

text \<open>\<open>sanitizeInput\<close> of the contact routes: four replacements on every string field.\<close>

definition sanitize_contact_value :: "string \<Rightarrow> string" where
  "sanitize_contact_value v =
     remove_all True handler_re
       (remove_all True javascript_re
         (remove_all True iframe_re
           (remove_all True script_re v)))"

definition sanitizeInput :: "body \<Rightarrow> body" where
  "sanitizeInput b = map (\<lambda>(k, v). (k, sanitize_contact_value v)) b"

text \<open>\<open>sanitizeCareerInput\<close> of the career routes: three replacements.\<close>

definition sanitize_career_value :: "string \<Rightarrow> string" where
  "sanitize_career_value v =
     remove_all True handler_re
       (remove_all True javascript_re
         (remove_all True script_re v))"

definition sanitizeCareerInput :: "body \<Rightarrow> body" where
  "sanitizeCareerInput b = map (\<lambda>(k, v). (k, sanitize_career_value v)) b"

section \<open>The remote backend\<close>

text \<open>
  The hosted database and object storage are outside the repository. A call to them
  resolves with a row, resolves with an error object (\<open>{data: null, error}\<close>, which is
  how supabase-js reports a rejected statement, a row-level-security denial included),
  or rejects (the awaited promise throws). Which of the three happens is an input.
\<close>

record pg_error =
  pg_code :: string
  pg_message :: string

datatype reply = Accept | Reject pg_error | Throws string

text \<open>JavaScript exceptions; both kinds carry a message.\<close>

datatype js_error = Error string | TypeError string

fun message_of :: "js_error \<Rightarrow> string" where
  "message_of (Error m) = m"
| "message_of (TypeError m) = m"

text \<open>A row id as JavaScript sees it: a number (integer key) or a string (UUID key).\<close>

datatype js_id = IdNum nat | IdStr string

fun id_json :: "js_id \<Rightarrow> json" where
  "id_json (IdNum n) = JNum (int n)"
| "id_json (IdStr s) = JStr s"

record contact_row =
  row_id :: js_id
  Full_Name :: string
  Email_id :: string
  Contact :: string
  Enter_Message :: string
  created_at :: "string option"

record career_row =
  app_id :: nat
  col_full_name :: string
  col_email :: string
  col_phone :: string
  col_location :: string
  col_position :: string
  col_experience :: string
  col_qualification :: string
  col_cover_letter :: "string option"
  col_resume_url :: "string option"
  col_resume_file_name :: "string option"
  col_consent_given :: bool
  col_application_status :: string
  col_application_date :: string

text \<open>What the backend will do with the calls of one request, and the id it assigns.\<close>

record backend =
  contact_insert :: reply
  contact_next_id :: js_id
  contact_created_at :: "string option"
  career_insert :: reply
  career_rpc :: reply
  career_next_id :: nat
  storage_upload :: reply
  storage_base_url :: string

text \<open>The durable state: both tables, the stored files (path and content type) and
  the number of calls made to the procedure \<open>insert_career_application\<close>.\<close>

record store =
  contacts :: "contact_row list"
  applications :: "career_row list"
  files :: "(string \<times> string) list"
  rpc_calls :: nat

section \<open>Configuration\<close>

text \<open>\<open>process.env.NODE_ENV\<close>, and \<open>config.server.environment\<close>, which defaults to
  development.\<close>

definition environment :: "string option \<Rightarrow> string" where
  "environment node_env =
     (case node_env of None \<Rightarrow> ''development'' | Some e \<Rightarrow> if e = [] then ''development'' else e)"

text \<open>\<open>config.validation.contact\<close>: \<open>/^[a-zA-Z\s]+$/\<close>,
  \<open>/^[^\s@]+@[^\s@]+\.[^\s@]+$/\<close> and \<open>/^[\+]?[\d\s\-\(\)]+$/\<close>.\<close>

definition cfg_fullName_minLength :: nat where "cfg_fullName_minLength = 2"
definition cfg_fullName_maxLength :: nat where "cfg_fullName_maxLength = 50"
definition cfg_contact_minLength :: nat where "cfg_contact_minLength = 10"
definition cfg_message_minLength :: nat where "cfg_message_minLength = 10"
definition cfg_message_maxLength :: nat where "cfg_message_maxLength = 1000"

definition cfg_fullName_pattern :: regex where
  "cfg_fullName_pattern = seqs [Bol, plus_re (CSet (letter_classes @ [Space])), Eol]"

definition cfg_email_pattern :: regex where
  "cfg_email_pattern =
     seqs [Bol, plus_re (NotCSet [Space, Single CHR ''@'']), Chr CHR ''@'',
           plus_re (NotCSet [Space, Single CHR ''@'']), Chr CHR ''.'',
           plus_re (NotCSet [Space, Single CHR ''@'']), Eol]"

definition cfg_contact_pattern :: regex where
  "cfg_contact_pattern = phone_re"

section \<open>Contact service\<close>

text \<open>A value is truthy when it is neither undefined nor the empty string.\<close>

definition truthy :: "string option \<Rightarrow> bool" where
  "truthy v = (case v of None \<Rightarrow> False | Some s \<Rightarrow> s \<noteq> [])"

text \<open>\<open>ContactService.validateContactData\<close>: eight checks, each pushing its message.\<close>

definition validateContactData :: "body \<Rightarrow> string list" where
  "validateContactData d =
     (let fullName = field d ''fullName''; email = field d ''email'';
          contact = field d ''contact''; message = field d ''message''
      in
        (if \<not> truthy fullName \<or> length (trim (to_str fullName)) < cfg_fullName_minLength
         then [''Full name must be at least '' @ nat_toString cfg_fullName_minLength @ '' characters long'']
         else [])
      @ (if truthy fullName \<and> length (to_str fullName) > cfg_fullName_maxLength
         then [''Full name must not exceed '' @ nat_toString cfg_fullName_maxLength @ '' characters'']
         else [])
      @ (if truthy fullName \<and> \<not> test False cfg_fullName_pattern (to_str fullName)
         then [''Full name can only contain letters and spaces'']
         else [])
      @ (if \<not> truthy email \<or> \<not> test False cfg_email_pattern (to_str email)
         then [''Please provide a valid email address'']
         else [])
      @ (if \<not> truthy contact \<or> length (to_str contact) < cfg_contact_minLength
         then [''Contact number must be at least '' @ nat_toString cfg_contact_minLength @ '' digits long'']
         else [])
      @ (if truthy contact \<and> \<not> test False cfg_contact_pattern (to_str contact)
         then [''Please provide a valid contact number'']
         else [])
      @ (if \<not> truthy message \<or> length (trim (to_str message)) < cfg_message_minLength
         then [''Message must be at least '' @ nat_toString cfg_message_minLength @ '' characters long'']
         else [])
      @ (if truthy message \<and> length (to_str message) > cfg_message_maxLength
         then [''Message must not exceed '' @ nat_toString cfg_message_maxLength @ '' characters'']
         else []))"

record contact_record =
  rec_id :: js_id
  rec_submittedAt :: string
  rec_fullName :: string
  rec_email :: string

definition undefined_read :: "string \<Rightarrow> js_error" where
  "undefined_read prop =
     TypeError (''Cannot read properties of undefined (reading '' @ [CHR 0x27] @ prop @ [CHR 0x27] @ '')'')"

text \<open>\<open>ContactService.createContact\<close>; \<open>now\<close> is \<open>new Date().toISOString()\<close>. Calling
  \<open>trim\<close> or \<open>toLowerCase\<close> on an undefined field throws.\<close>

definition createContact :: "backend \<Rightarrow> string \<Rightarrow> store
    \<Rightarrow> string option \<Rightarrow> string option \<Rightarrow> string option \<Rightarrow> string option
    \<Rightarrow> (js_error + contact_record) \<times> store" where
  "createContact be now st fullName email contact message =
     (case fullName of None \<Rightarrow> (Inl (undefined_read ''trim''), st) | Some fn \<Rightarrow>
      case email of None \<Rightarrow> (Inl (undefined_read ''toLowerCase''), st) | Some em \<Rightarrow>
      case contact of None \<Rightarrow> (Inl (undefined_read ''trim''), st) | Some ct \<Rightarrow>
      case message of None \<Rightarrow> (Inl (undefined_read ''trim''), st) | Some ms \<Rightarrow>
        (let row = \<lparr>row_id = contact_next_id be,
                    Full_Name = trim fn,
                    Email_id = trim (toLowerCase em),
                    Contact = trim ct,
                    Enter_Message = trim ms,
                    created_at = contact_created_at be\<rparr>
         in case contact_insert be of
              Accept \<Rightarrow>
                (Inr \<lparr>rec_id = row_id row,
                      rec_submittedAt = (if truthy (created_at row) then to_str (created_at row) else now),
                      rec_fullName = Full_Name row,
                      rec_email = Email_id row\<rparr>,
                 st\<lparr>contacts := contacts st @ [row]\<rparr>)
            | Reject e \<Rightarrow> (Inl (Error (''Database insertion failed: '' @ pg_message e)), st)
            | Throws m \<Rightarrow> (Inl (Error m), st)))"

section \<open>Contact controller and route\<close>

text \<open>The failure branch shared by the controllers: the detail is shown in
  development; the status is 503 when the message names one of the markers.\<close>

definition failure_response :: "string \<Rightarrow> string list \<Rightarrow> string \<Rightarrow> js_error \<Rightarrow> response" where
  "failure_response env markers apology e =
     \<lparr>status = (if list_ex (str_includes (message_of e)) markers then 503 else 500),
      headers = [],
      payload = JObj
        ([(''success'', JBool False), (''message'', JStr apology)]
         @ (if env = ''development'' then [(''error'', JStr (message_of e))] else []))\<rparr>"

definition validation_failed :: "json list \<Rightarrow> response" where
  "validation_failed errs =
     \<lparr>status = 400,
      headers = [],
      payload = JObj
        [(''success'', JBool False), (''message'', JStr ''Validation failed''),
         (''errors'', JArr errs)]\<rparr>"

text \<open>\<open>`AF-${contactRecord.id.slice(-8).toUpperCase()}`\<close>: a number has no \<open>slice\<close>.\<close>

definition reference :: "js_id \<Rightarrow> js_error + string" where
  "reference i =
     (case i of
        IdStr s \<Rightarrow> Inr (''AF-'' @ toUpperCase (slice_last 8 s))
      | IdNum n \<Rightarrow> Inl (TypeError ''contactRecord.id.slice is not a function''))"

definition contact_apology :: string where
  "contact_apology =
     ''We apologize, but there was an issue submitting your contact form. Please try again later.''"

text \<open>\<open>ContactController.createContact\<close>, given the errors the chains collected and the
  body they left.\<close>

definition contact_controller :: "string \<Rightarrow> backend \<Rightarrow> string \<Rightarrow> store
    \<Rightarrow> verror list \<Rightarrow> body \<Rightarrow> response \<times> store" where
  "contact_controller env be now st errors b =
     (if errors \<noteq> [] then (validation_failed (map error_json errors), st)
      else
        (let validation = validateContactData b
         in if validation \<noteq> [] then (validation_failed (map JStr validation), st)
            else
              (case createContact be now st (field b ''fullName'') (field b ''email'')
                      (field b ''contact'') (field b ''message'') of
                 (Inl e, st') \<Rightarrow> (failure_response env [''Database''] contact_apology e, st')
               | (Inr r, st') \<Rightarrow>
                   (case reference (rec_id r) of
                      Inl e \<Rightarrow> (failure_response env [''Database''] contact_apology e, st')
                    | Inr ref \<Rightarrow>
                        (\<lparr>status = 201,
                          headers = [],
                          payload = JObj
                            [(''success'', JBool True),
                             (''message'', JStr ''Thank you for contacting Africure Pharma! We will get back to you soon.''),
                             (''data'', JObj
                                [(''id'', id_json (rec_id r)),
                                 (''submittedAt'', JStr (rec_submittedAt r)),
                                 (''reference'', JStr ref)])]\<rparr>, st')))))"

text \<open>\<open>validateContactForm\<close>: \<open>/^[a-zA-Z\s\-\.\']+$/\<close> and
  \<open>/^[\+]?[1-9][\d]{0,15}$/\<close>.\<close>

definition contact_name_re :: regex where
  "contact_name_re =
     seqs [Bol, plus_re (CSet (letter_classes @ [Space, Single CHR ''-'', Single CHR ''.'', Single CHR 0x27])), Eol]"

definition contact_number_re :: regex where
  "contact_number_re =
     seqs [Bol, Opt (CSet [Single CHR ''+'']), CSet [Range CHR ''1'' CHR ''9''],
           rep_upto 15 (CSet [Digit]), Eol]"

definition validateContactForm :: "chain list" where
  "validateContactForm =
     [\<lparr>path = ''fullName'', optional = False, items =
         [Sanitize SanTrim,
          Check NotEmpty ''Full name is required'',
          Check (IsLength 2 (Some 255)) ''Full name must be between 2 and 255 characters'',
          Check (Matches False contact_name_re)
            ''Full name can only contain letters, spaces, hyphens, dots, and apostrophes'']\<rparr>,
      \<lparr>path = ''email'', optional = False, items =
         [Sanitize SanTrim,
          Check NotEmpty ''Email is required'',
          Check IsEmail ''Please provide a valid email address'',
          Sanitize SanNormalizeEmail,
          Check (IsLength 0 (Some 255)) ''Email must not exceed 255 characters'']\<rparr>,
      \<lparr>path = ''contact'', optional = False, items =
         [Sanitize SanTrim,
          Check NotEmpty ''Contact number is required'',
          Check (Matches False contact_number_re) ''Please provide a valid contact number (10-16 digits)'',
          Check (IsLength 10 (Some 16)) ''Contact number must be between 10 and 16 digits'']\<rparr>,
      \<lparr>path = ''message'', optional = False, items =
         [Sanitize SanTrim,
          Check NotEmpty ''Message is required'',
          Check (IsLength 10 (Some 2000)) ''Message must be between 10 and 2000 characters'',
          Sanitize SanEscape]\<rparr>]"

section \<open>Rate limiting\<close>

text \<open>
  express-rate-limit with its memory store, which is a dependency and not part of the
  repository: per client address it keeps a hit counter and the time at which the
  counter resets, one window after the first hit of the window. Every request that is
  not skipped counts; a request is rejected when its count exceeds \<open>max\<close>. Times are
  in milliseconds.
\<close>

type_synonym limiter = "string \<Rightarrow> (nat \<times> nat) option"

definition increment :: "nat \<Rightarrow> limiter \<Rightarrow> string \<Rightarrow> nat \<Rightarrow> nat \<times> nat" where
  "increment windowMs l ip now =
     (case l ip of
        None \<Rightarrow> (1, now + windowMs)
      | Some (hits, resetTime) \<Rightarrow>
          if now < resetTime then (hits + 1, resetTime) else (1, now + windowMs))"

text \<open>The time left in the window, in whole seconds:
  \<open>Math.ceil((resetTime - now) / 1000)\<close>.\<close>

definition seconds_left :: "nat \<Rightarrow> nat \<Rightarrow> nat" where
  "seconds_left resetTime now = (resetTime - now + 999) div 1000"

text \<open>
  With \<open>standardHeaders: true\<close> the library sets headers on the response before the
  handler sends it. The model keeps the two that carry the time left on a rejection,
  \<open>RateLimit-Reset\<close> and \<open>Retry-After\<close>; the other \<open>RateLimit-*\<close> headers (limit,
  remaining, policy), which it also sets on the responses of admitted requests, are
  left out.
\<close>

definition limit_headers :: "nat \<Rightarrow> nat \<Rightarrow> (string \<times> string) list" where
  "limit_headers resetTime now =
     [(''RateLimit-Reset'', nat_toString (seconds_left resetTime now)),
      (''Retry-After'', nat_toString (seconds_left resetTime now))]"

datatype 'a passed = Next 'a | Respond response

text \<open>\<open>rejection\<close> is what the handler sends (status and body).\<close>

definition rate_limit :: "nat \<Rightarrow> nat \<Rightarrow> bool \<Rightarrow> response \<Rightarrow> limiter \<Rightarrow> string \<Rightarrow> nat
    \<Rightarrow> unit passed \<times> limiter" where
  "rate_limit windowMs mx skip rejection l ip now =
     (if skip then (Next (), l)
      else
        (let hit = increment windowMs l ip now; l' = l(ip \<mapsto> hit)
         in if fst hit > mx
            then (Respond (rejection\<lparr>headers := limit_headers (snd hit) now @ headers rejection\<rparr>), l')
            else (Next (), l')))"

text \<open>\<open>contactRateLimit\<close>: 15 minutes, 3 requests, skipped when \<open>NODE_ENV\<close> is
  development; the library's default handler sends \<open>message\<close> with status 429.\<close>

definition contact_windowMs :: nat where
  "contact_windowMs = 15 * 60 * 1000"

definition contact_rejection :: response where
  "contact_rejection =
     \<lparr>status = 429,
      headers = [],
      payload = JObj
        [(''success'', JBool False),
         (''message'', JStr ''Too many contact form submissions from this IP, please try again after 15 minutes.''),
         (''retryAfter'', JNum 900)]\<rparr>"

definition contactRateLimit :: "string option \<Rightarrow> limiter \<Rightarrow> string \<Rightarrow> nat \<Rightarrow> unit passed \<times> limiter" where
  "contactRateLimit node_env l ip now =
     rate_limit contact_windowMs 3 (node_env = Some ''development'') contact_rejection l ip now"

text \<open>\<open>careerApplicationRateLimit\<close>: one hour, 3 requests, with its own handler;
  \<open>stamp\<close> is the time stamp of the rejection.\<close>

definition career_windowMs :: nat where
  "career_windowMs = 60 * 60 * 1000"

definition career_rejection :: "string \<Rightarrow> response" where
  "career_rejection stamp =
     \<lparr>status = 429,
      headers = [],
      payload = JObj
        [(''success'', JBool False),
         (''message'', JStr ''Too many career applications from this IP. Please try again later.''),
         (''retryAfter'', JNum (60 * 60)),
         (''timestamp'', JStr stamp)]\<rparr>"

definition careerApplicationRateLimit :: "string \<Rightarrow> limiter \<Rightarrow> string \<Rightarrow> nat \<Rightarrow> unit passed \<times> limiter" where
  "careerApplicationRateLimit stamp l ip now =
     rate_limit career_windowMs 3 False (career_rejection stamp) l ip now"

text \<open>A request as it reaches a router, past the application-wide middleware of the
  server (security headers, CORS, the general limiter of 100 requests, body parsing),
  which is outside the model: the client address, the arrival time (in milliseconds,
  and as the ISO string \<open>new Date().toISOString()\<close> gives), the body.\<close>

record request =
  req_ip :: string
  req_time_ms :: nat
  req_time_iso :: string
  req_body :: body

text \<open>The process environment and the libraries, fixed for a run.\<close>

record world =
  w_node_env :: "string option"
  w_lib :: validatorjs

text \<open>\<open>router.post('/', contactRateLimit, sanitizeInput, validateContactForm,
  ContactController.createContact)\<close>.\<close>

definition post_contact :: "world \<Rightarrow> backend \<Rightarrow> limiter \<times> store \<Rightarrow> request
    \<Rightarrow> response \<times> limiter \<times> store" where
  "post_contact w be ls req =
     (case contactRateLimit (w_node_env w) (fst ls) (req_ip req) (req_time_ms req) of
        (Respond r, l') \<Rightarrow> (r, l', snd ls)
      | (Next _, l') \<Rightarrow>
          (let b1 = sanitizeInput (req_body req);
               (errors, b2) = run_chains (w_lib w) validateContactForm b1;
               (r, st') = contact_controller (environment (w_node_env w)) be (req_time_iso req) (snd ls) errors b2
           in (r, l', st')))"

section \<open>Career service\<close>

text \<open>The file multer hands over: its original name, declared content type and size
  in bytes.\<close>

record upload_file =
  originalname :: string
  mimetype :: string
  size_bytes :: nat

text \<open>\<open>path.extname\<close> on a plain file name: from the last dot on, unless the name has
  no dot or only a leading one, or is \<open>..\<close>.\<close>

definition extname :: "string \<Rightarrow> string" where
  "extname n =
     (let r = takeWhile (\<lambda>c. c \<noteq> CHR ''.'') (rev n)
      in if CHR ''.'' \<notin> set n \<or> Suc (length r) = length n \<or> n = ''..'' then []
         else CHR ''.'' # rev r)"

record upload_result =
  up_url :: string
  up_fileName :: string
  up_storagePath :: string

text \<open>\<open>CareerService.uploadResume\<close>; \<open>token\<close> stands for the time stamp and random
  string of the generated name.\<close>

definition uploadResume :: "backend \<Rightarrow> string \<Rightarrow> store \<Rightarrow> upload_file
    \<Rightarrow> (js_error + upload_result) \<times> store" where
  "uploadResume be token st file =
     (let fileName = ''resume_'' @ token @ extname (originalname file);
          filePath = ''resumes/'' @ fileName
      in case storage_upload be of
           Accept \<Rightarrow>
             (Inr \<lparr>up_url = storage_base_url be @ filePath,
                   up_fileName = originalname file,
                   up_storagePath = filePath\<rparr>,
              st\<lparr>files := files st @ [(filePath, mimetype file)]\<rparr>)
         | Reject e \<Rightarrow> (Inl (Error (''File upload failed: '' @ pg_message e)), st)
         | Throws m \<Rightarrow> (Inl (Error m), st))"

record application_result =
  res_id :: nat
  res_applicationNumber :: string
  res_submittedAt :: string
  res_fullName :: string
  res_email :: string
  res_position :: string
  res_status :: string

definition result_of_row :: "career_row \<Rightarrow> application_result" where
  "result_of_row r =
     \<lparr>res_id = app_id r,
      res_applicationNumber = ''AC-'' @ padStart 6 CHR ''0'' (nat_toString (app_id r)),
      res_submittedAt = col_application_date r,
      res_fullName = col_full_name r,
      res_email = col_email r,
      res_position = col_position r,
      res_status = col_application_status r\<rparr>"

text \<open>The insert of \<open>CareerService.createApplication\<close>, lines 79 to 119: the direct
  insert; in the \<open>catch\<close> branch, the procedure \<open>insert_career_application\<close>. The
  procedure returns a table, so its \<open>data\<close> is an array and reading \<open>data.id.toString\<close>
  throws.\<close>

definition insert_application :: "backend \<Rightarrow> store \<Rightarrow> career_row
    \<Rightarrow> (js_error + application_result) \<times> store" where
  "insert_application be st insertData =
     (case career_insert be of
        Accept \<Rightarrow>
          (Inr (result_of_row insertData), st\<lparr>applications := applications st @ [insertData]\<rparr>)
      | Reject e \<Rightarrow> (Inl (Error (''Database insertion failed: '' @ pg_message e)), st)
      | Throws m \<Rightarrow>
          (let st1 = st\<lparr>rpc_calls := Suc (rpc_calls st)\<rparr>
           in case career_rpc be of
                Accept \<Rightarrow>
                  (Inl (undefined_read ''toString''),
                   st1\<lparr>applications := applications st1 @ [insertData]\<rparr>)
              | Reject e \<Rightarrow> (Inl (Error (''Database insertion failed: '' @ pg_message e)), st1)
              | Throws m' \<Rightarrow> (Inl (Error m'), st1)))"

text \<open>The fields a career application is built from, as destructured from the body.\<close>

record application_data =
  ad_fullName :: "string option"
  ad_email :: "string option"
  ad_phone :: "string option"
  ad_location :: "string option"
  ad_position :: "string option"
  ad_experience :: "string option"
  ad_qualification :: "string option"
  ad_coverLetter :: "string option"
  ad_consent :: "string option"

definition application_data_of :: "body \<Rightarrow> application_data" where
  "application_data_of b =
     \<lparr>ad_fullName = field b ''fullName'', ad_email = field b ''email'',
      ad_phone = field b ''phone'', ad_location = field b ''location'',
      ad_position = field b ''position'', ad_experience = field b ''experience'',
      ad_qualification = field b ''qualification'', ad_coverLetter = field b ''coverLetter'',
      ad_consent = field b ''consent''\<rparr>"

text \<open>\<open>insertData\<close>, lines 63 to 77. An undefined position, experience or
  qualification would be left out of the payload; the model writes the empty string for
  it, a case the controller never lets through. \<open>consent\<close> is a string here, so
  \<open>consent === 'on' || consent === true\<close> is \<open>consent === 'on'\<close>.\<close>

definition insertData_of :: "backend \<Rightarrow> string \<Rightarrow> application_data \<Rightarrow> upload_result option
    \<Rightarrow> js_error + career_row" where
  "insertData_of be now d up =
     (case ad_fullName d of None \<Rightarrow> Inl (undefined_read ''trim'') | Some fn \<Rightarrow>
      case ad_email d of None \<Rightarrow> Inl (undefined_read ''toLowerCase'') | Some em \<Rightarrow>
      case ad_phone d of None \<Rightarrow> Inl (undefined_read ''trim'') | Some ph \<Rightarrow>
      case ad_location d of None \<Rightarrow> Inl (undefined_read ''trim'') | Some lc \<Rightarrow>
        Inr \<lparr>app_id = career_next_id be,
             col_full_name = trim fn,
             col_email = trim (toLowerCase em),
             col_phone = trim ph,
             col_location = trim lc,
             col_position = to_str (ad_position d),
             col_experience = to_str (ad_experience d),
             col_qualification = to_str (ad_qualification d),
             col_cover_letter = (if truthy (ad_coverLetter d) then Some (trim (to_str (ad_coverLetter d))) else None),
             col_resume_url = map_option up_url up,
             col_resume_file_name = map_option up_fileName up,
             col_consent_given = (ad_consent d = Some ''on''),
             col_application_status = ''pending'',
             col_application_date = now\<rparr>)"

text \<open>\<open>CareerService.createApplication\<close>: the upload, if a file is given, comes first.\<close>

definition createApplication :: "backend \<Rightarrow> string \<Rightarrow> string \<Rightarrow> store
    \<Rightarrow> application_data \<Rightarrow> upload_file option \<Rightarrow> (js_error + application_result) \<times> store" where
  "createApplication be now token st d resumeFile =
     (case (case resumeFile of
              None \<Rightarrow> (Inr None, st)
            | Some f \<Rightarrow>
                (case uploadResume be token st f of
                   (Inl e, st') \<Rightarrow> (Inl e, st')
                 | (Inr u, st') \<Rightarrow> (Inr (Some u), st'))) of
        (Inl e, st') \<Rightarrow> (Inl e, st')
      | (Inr up, st') \<Rightarrow>
          (case insertData_of be now d up of
             Inl e \<Rightarrow> (Inl e, st')
           | Inr insertData \<Rightarrow> insert_application be st' insertData))"

text \<open>\<open>field.replace(/([A-Z])/g, ' $1').toLowerCase()\<close>\<close>

definition camel_words :: "string \<Rightarrow> string" where
  "camel_words f = toLowerCase (concat (map (\<lambda>c. if is_upper c then [CHR '' '', c] else [c]) f))"

text \<open>\<open>CareerService.validateApplicationData\<close>\<close>

definition requiredFields :: "string list" where
  "requiredFields =
     [''fullName'', ''email'', ''phone'', ''location'', ''position'', ''experience'', ''qualification'']"

definition validateApplicationData :: "body \<Rightarrow> string list" where
  "validateApplicationData d =
     concat (map (\<lambda>f. if \<not> truthy (field d f) \<or> length (trim (to_str (field d f))) = 0
                       then [camel_words f @ '' is required''] else []) requiredFields)
     @ (if truthy (field d ''email'') \<and> \<not> test False cfg_email_pattern (to_str (field d ''email''))
        then [''Please provide a valid email address''] else [])
     @ (if truthy (field d ''phone'') \<and> \<not> test False phone_re (to_str (field d ''phone''))
        then [''Please provide a valid phone number''] else [])
     @ (if \<not> truthy (field d ''consent'')
        then [''You must agree to the terms and conditions''] else [])"

section \<open>Career controller and route\<close>

definition allowedTypes :: "string list" where
  "allowedTypes =
     [''application/pdf'', ''application/msword'',
      ''application/vnd.openxmlformats-officedocument.wordprocessingml.document'']"

definition maxSize :: nat where
  "maxSize = 5 * 1024 * 1024"

definition rejected :: "string \<Rightarrow> string \<Rightarrow> response" where
  "rejected msg detail =
     \<lparr>status = 400,
      headers = [],
      payload = JObj
        [(''success'', JBool False), (''message'', JStr msg), (''errors'', JArr [JStr detail])]\<rparr>"

definition career_apology :: string where
  "career_apology =
     ''We apologize, but there was an issue submitting your application. Please try again later.''"

text \<open>\<open>CareerController.submitApplication\<close>, given the errors the chains collected, the
  body they left and \<open>req.file\<close>.\<close>

definition career_controller :: "string \<Rightarrow> backend \<Rightarrow> string \<Rightarrow> string \<Rightarrow> store
    \<Rightarrow> verror list \<Rightarrow> body \<Rightarrow> upload_file option \<Rightarrow> response \<times> store" where
  "career_controller env be now token st errors b resumeFile =
     (if errors \<noteq> [] then (validation_failed (map error_json errors), st)
      else
        (let validation = validateApplicationData b
         in if validation \<noteq> [] then (validation_failed (map JStr validation), st)
            else
              (case resumeFile of
                 None \<Rightarrow>
                   (rejected ''Resume file is required''
                      ''Please upload your resume (PDF, DOC, or DOCX format)'', st)
               | Some f \<Rightarrow>
                   if mimetype f \<notin> set allowedTypes
                   then (rejected ''Invalid file type'' ''Please upload a PDF, DOC, or DOCX file'', st)
                   else if size_bytes f > maxSize
                   then (rejected ''File too large'' ''Resume file must be less than 5MB'', st)
                   else
                     (case createApplication be now token st (application_data_of b) (Some f) of
                        (Inl e, st') \<Rightarrow>
                          (failure_response env [''Database'', ''upload''] career_apology e, st')
                      | (Inr a, st') \<Rightarrow>
                          (\<lparr>status = 201,
                            headers = [],
                            payload = JObj
                              [(''success'', JBool True),
                               (''message'', JStr ''Thank you for your application! We have received your details and will get back to you soon.''),
                               (''data'', JObj
                                  [(''applicationNumber'', JStr (res_applicationNumber a)),
                                   (''id'', JNum (int (res_id a))),
                                   (''submittedAt'', JStr (res_submittedAt a)),
                                   (''position'', JStr (res_position a)),
                                   (''status'', JStr (res_status a))])]\<rparr>, st')))))"

text \<open>\<open>upload.single('resume')\<close> on a request with at most one attached file, named
  \<open>resume\<close>: the file filter, then the size limit. The file stays in memory.\<close>

datatype multer_error = LIMIT_FILE_SIZE | Invalid_file_type

definition upload_single :: "upload_file option \<Rightarrow> multer_error + upload_file option" where
  "upload_single att =
     (case att of
        None \<Rightarrow> Inr None
      | Some f \<Rightarrow>
          if mimetype f \<notin> set allowedTypes then Inl Invalid_file_type
          else if size_bytes f > 5 * 1024 * 1024 then Inl LIMIT_FILE_SIZE
          else Inr (Some f))"

text \<open>The error handler at the end of the career router.\<close>

definition multer_error_response :: "multer_error \<Rightarrow> response" where
  "multer_error_response e =
     (case e of
        LIMIT_FILE_SIZE \<Rightarrow> rejected ''File too large'' ''Resume file must be less than 5MB''
      | Invalid_file_type \<Rightarrow> rejected ''Invalid file type'' ''Please upload a PDF, DOC, or DOCX file'')"

record career_request =
  cr_request :: request
  cr_resume :: "upload_file option"
  cr_token :: string

text \<open>\<open>router.post('/apply', careerApplicationRateLimit, upload.single('resume'),
  sanitizeCareerInput, validateCareerApplication, CareerController.submitApplication)\<close>.\<close>

definition post_apply :: "world \<Rightarrow> backend \<Rightarrow> limiter \<times> store \<Rightarrow> career_request
    \<Rightarrow> response \<times> limiter \<times> store" where
  "post_apply w be ls cr =
     (let req = cr_request cr
      in case careerApplicationRateLimit (req_time_iso req) (fst ls) (req_ip req) (req_time_ms req) of
           (Respond r, l') \<Rightarrow> (r, l', snd ls)
         | (Next _, l') \<Rightarrow>
             (case upload_single (cr_resume cr) of
                Inl e \<Rightarrow> (multer_error_response e, l', snd ls)
              | Inr file \<Rightarrow>
                  (let b1 = sanitizeCareerInput (req_body req);
                       (errors, b2) = run_chains (w_lib w) validateCareerApplication b1;
                       (r, st') = career_controller (environment (w_node_env w)) be (req_time_iso req)
                                    (cr_token cr) (snd ls) errors b2 file
                   in (r, l', st'))))"

section \<open>Admin list operations\<close>

text \<open>
  A select through the query builder: whether a row count was asked for
  (\<open>select('*', {count: 'exact'})\<close>), the order, the inclusive range and the equality
  filters. The reply carries \<open>count\<close> only when it was asked for; otherwise it is null.
\<close>

record select_query =
  q_table :: string
  q_count_exact :: bool
  q_order_by :: string
  q_ascending :: bool
  q_range_from :: int
  q_range_to :: int
  q_filters :: "(string \<times> string) list"

record 'r select_reply =
  sr_data :: "'r list"
  sr_count :: "nat option"

text \<open>The page of a list of rows already filtered and ordered by the backend.\<close>

definition answer :: "select_query \<Rightarrow> 'r list \<Rightarrow> 'r select_reply" where
  "answer q rows =
     \<lparr>sr_data = (if q_range_from q < 0 \<or> q_range_to q < q_range_from q then []
                  else take (nat (q_range_to q - q_range_from q + 1)) (drop (nat (q_range_from q)) rows)),
      sr_count = (if q_count_exact q then Some (length rows) else None)\<rparr>"

record list_options =
  lo_page :: int
  lo_limit :: int
  lo_sortBy :: string
  lo_sortOrder :: string

record 'r page_result =
  pr_rows :: "'r list"
  pr_page :: int
  pr_limit :: int
  pr_total :: "nat option"
  pr_totalPages :: int

text \<open>\<open>Math.ceil(count / limit)\<close> for a limit other than 0; a null count is 0 in the
  division. (With limit 0 the quotient is \<open>NaN\<close> or infinite, which this integer does
  not show; \<open>validatePagination\<close> keeps the limit within 1 to 100.)\<close>

definition totalPages_of :: "nat option \<Rightarrow> int \<Rightarrow> int" where
  "totalPages_of cnt limit = - ((- int (case cnt of None \<Rightarrow> 0 | Some c \<Rightarrow> c)) div limit)"

text \<open>The query \<open>ContactService.getAllContacts\<close> builds.\<close>

definition contacts_query :: "list_options \<Rightarrow> select_query" where
  "contacts_query opts =
     (let offset = (lo_page opts - 1) * lo_limit opts
      in \<lparr>q_table = ''Contact_Us'', q_count_exact = False,
          q_order_by = lo_sortBy opts, q_ascending = (lo_sortOrder opts = ''asc''),
          q_range_from = offset, q_range_to = offset + lo_limit opts - 1,
          q_filters = []\<rparr>)"

text \<open>\<open>ContactService.getAllContacts\<close>, on a reply without error; \<open>rows\<close> is the table
  as the backend orders it for the query.\<close>

definition getAllContacts :: "list_options \<Rightarrow> 'r list \<Rightarrow> 'r page_result" where
  "getAllContacts opts rows =
     (let reply = answer (contacts_query opts) rows
      in \<lparr>pr_rows = sr_data reply, pr_page = lo_page opts, pr_limit = lo_limit opts,
          pr_total = sr_count reply,
          pr_totalPages = totalPages_of (sr_count reply) (lo_limit opts)\<rparr>)"

text \<open>The query \<open>CareerService.getAllApplications\<close> builds, with its optional filters.\<close>

definition applications_query :: "list_options \<Rightarrow> string option \<Rightarrow> string option \<Rightarrow> select_query" where
  "applications_query opts st_filter pos_filter =
     (let offset = (lo_page opts - 1) * lo_limit opts
      in \<lparr>q_table = ''Career_Applications'', q_count_exact = False,
          q_order_by = lo_sortBy opts, q_ascending = (lo_sortOrder opts = ''asc''),
          q_range_from = offset, q_range_to = offset + lo_limit opts - 1,
          q_filters =
            (if truthy st_filter then [(''application_status'', to_str st_filter)] else [])
            @ (if truthy pos_filter then [(''position'', to_str pos_filter)] else [])\<rparr>)"

definition getAllApplications :: "list_options \<Rightarrow> string option \<Rightarrow> string option \<Rightarrow> 'r list
    \<Rightarrow> 'r page_result" where
  "getAllApplications opts st_filter pos_filter rows =
     (let reply = answer (applications_query opts st_filter pos_filter) rows
      in \<lparr>pr_rows = sr_data reply, pr_page = lo_page opts, pr_limit = lo_limit opts,
          pr_total = sr_count reply,
          pr_totalPages = totalPages_of (sr_count reply) (lo_limit opts)\<rparr>)"

text \<open>Feeding a limiter the successive requests of one address, given by their arrival
  times: which of them it lets through.\<close>

fun admissions :: "(limiter \<Rightarrow> string \<Rightarrow> nat \<Rightarrow> unit passed \<times> limiter) \<Rightarrow> limiter \<Rightarrow> string
    \<Rightarrow> nat list \<Rightarrow> bool list" where
  "admissions lim l a [] = []"
| "admissions lim l a (t # ts) =
     (case lim l a t of (r, l') \<Rightarrow> (r = Next ()) # admissions lim l' a ts)"

text \<open>A stand-in for validator.js at concrete inputs: an address is one the service
  pattern accepts, normalising lower-cases it. The theorems below hold for every
  library; this one only instantiates them.\<close>

definition sample_validatorjs :: validatorjs where
  "sample_validatorjs = \<lparr>isEmail = test False cfg_email_pattern, normalizeEmail = toLowerCase\<rparr>"

text \<open>The error PostgreSQL raises when a row-level-security policy denies an insert.\<close>

definition rls_denial :: pg_error where
  "rls_denial =
     \<lparr>pg_code = ''42501'',
      pg_message = ''new row violates row-level security policy for table ''
                   @ [CHR 0x22] @ ''Career_Applications'' @ [CHR 0x22]\<rparr>"

text \<open>A complete application, as the fields reach the service.\<close>

definition sample_application :: application_data where
  "sample_application =
     \<lparr>ad_fullName = Some ''Jane Doe'', ad_email = Some ''jane.doe@example.com'',
      ad_phone = Some ''+1234567890'', ad_location = Some ''Test City'',
      ad_position = Some ''supply-chain'', ad_experience = Some ''2-3'',
      ad_qualification = Some ''bpharm'', ad_coverLetter = None,
      ad_consent = Some ''on''\<rparr>"

text \<open>Sample requests: a complete career form without the consent field, an
  acceptable resume and one of a type the upload filter refuses.\<close>

definition form_without_consent :: body where
  "form_without_consent =
     [(''fullName'', ''Jane Doe''), (''email'', ''jane.doe@example.com''),
      (''phone'', ''+1234567890''), (''location'', ''Test City''),
      (''position'', ''supply-chain''), (''experience'', ''2-3''),
      (''qualification'', ''bpharm'')]"

definition resume_pdf :: upload_file where
  "resume_pdf = \<lparr>originalname = ''cv.pdf'', mimetype = ''application/pdf'', size_bytes = 2097152\<rparr>"

definition resume_txt :: upload_file where
  "resume_txt = \<lparr>originalname = ''cv.txt'', mimetype = ''text/plain'', size_bytes = 4194304\<rparr>"

definition career_request_of :: "body \<Rightarrow> upload_file option \<Rightarrow> career_request" where
  "career_request_of b f =
     \<lparr>cr_request = \<lparr>req_ip = ''203.0.113.7'', req_time_ms = 0,
                     req_time_iso = ''2026-01-01T00:00:00.000Z'', req_body = b\<rparr>,
      cr_resume = f, cr_token = ''1767225600000_k3x9q''\<rparr>"

definition production :: world where
  "production = \<lparr>w_node_env = Some ''production'', w_lib = sample_validatorjs\<rparr>"

text \<open>A backend that accepts every call, and the empty state.\<close>

definition accepting :: backend where
  "accepting =
     \<lparr>contact_insert = Accept, contact_next_id = IdNum 123,
      contact_created_at = Some ''2026-01-01T00:00:00.000Z'',
      career_insert = Accept, career_rpc = Accept, career_next_id = 7,
      storage_upload = Accept, storage_base_url = ''https://storage.example/career-applications/''\<rparr>"

definition empty_store :: store where
  "empty_store = \<lparr>contacts = [], applications = [], files = [], rpc_calls = 0\<rparr>"

text \<open>The entry the career controller renders for a missing consent field.\<close>

definition consent_error :: verror where
  "consent_error =
     \<lparr>err_field = ''consent'', err_message = ''You must agree to the terms and conditions'',
      err_value = None\<rparr>"

text \<open>The contact form of the scenario, and a request carrying a body.\<close>

definition contact_form :: body where
  "contact_form =
     [(''fullName'', ''John Doe''), (''email'', ''JOHN@Example.com''),
      (''contact'', ''+14155550100''),
      (''message'', ''Hello, I have a question about your products.'')]"

definition request_of :: "body \<Rightarrow> request" where
  "request_of b =
     \<lparr>req_ip = ''203.0.113.7'', req_time_ms = 0,
      req_time_iso = ''2026-01-01T00:00:00.000Z'', req_body = b\<rparr>"

text \<open>The row the scenario's form is stored as, under the id the backend assigns.\<close>

definition john_row :: "js_id \<Rightarrow> string option \<Rightarrow> contact_row" where
  "john_row i t =
     \<lparr>row_id = i, Full_Name = ''John Doe'', Email_id = ''john@example.com'',
      Contact = ''+14155550100'',
      Enter_Message = ''Hello, I have a question about your products.'',
      created_at = t\<rparr>"

text \<open>The row the sample career form is stored as when its consent field is not the
  string \<open>on\<close>; \<open>token\<close> names the uploaded file.\<close>

definition jane_row :: "backend \<Rightarrow> string \<Rightarrow> string \<Rightarrow> career_row" where
  "jane_row be now token =
     \<lparr>app_id = career_next_id be,
      col_full_name = ''Jane Doe'', col_email = ''jane.doe@example.com'',
      col_phone = ''+1234567890'', col_location = ''Test City'',
      col_position = ''supply-chain'', col_experience = ''2-3'',
      col_qualification = ''bpharm'', col_cover_letter = None,
      col_resume_url = Some (storage_base_url be @ ''resumes/resume_'' @ token @ ''.pdf''),
      col_resume_file_name = Some ''cv.pdf'',
      col_consent_given = False,
      col_application_status = ''pending'',
      col_application_date = now\<rparr>"









section \<open>Theorems\<close>

text \<open>
  C10. When the reachability probe completes and reports the backend unreachable, the
  health check answers 503 with \<open>data.status = 'degraded'\<close>, \<open>data.services.api = 'up'\<close>
  and \<open>success = true\<close>; \<open>success\<close> is false exactly when the probe throws.
\<close>

theorem healthCheck_degraded_success:
  "status (healthCheck env now (Returned False)) = 503
   \<and> jpath (payload (healthCheck env now (Returned False))) [''data'', ''status'']
       = Some (JStr ''degraded'')
   \<and> jpath (payload (healthCheck env now (Returned False))) [''data'', ''services'', ''api'']
       = Some (JStr ''up'')
   \<and> jpath (payload (healthCheck env now (Returned False))) [''success''] = Some (JBool True)
   \<and> ((jpath (payload (healthCheck env now probe)) [''success''] = Some (JBool False))
        = (\<exists>m. probe = Threw m))"
  by (cases probe) (simp_all add: healthCheck_def Let_def)

text \<open>
  C9. The position codes that \<open>GET /api/careers/positions\<close> returns are exactly the
  codes the position rule of the career-application validator accepts.
\<close>

theorem positions_list_eq_validator_set:
  "(p \<in> set (position_codes getAvailablePositions)) = (position_errors lib p = [])"
proof -
  have codes: "position_codes getAvailablePositions = valid_positions"
    by (simp add: position_codes_def getAvailablePositions_def positions_def valid_positions_def)
  have ne: "p \<in> set valid_positions \<Longrightarrow> p \<noteq> []"
    by (auto simp: valid_positions_def)
  have "(position_errors lib p = []) = (p \<in> set valid_positions)"
    using ne
    by (auto simp: position_errors_def chain_for_def validateCareerApplication_def
        run_chain_def field_def has_sanitizer_def to_str_def Let_def)
  with codes show ?thesis by simp
qed

subsection \<open>Pagination\<close>

lemma totalPages_of_null: "totalPages_of None limit = 0"
  by (simp add: totalPages_of_def)

text \<open>
  C8. The list operations ask for the inclusive range that starts at \<open>(page - 1) * limit\<close>
  in the given order, but never ask the backend for a row count: \<open>count\<close> comes back
  null, so \<open>total\<close> is null and \<open>totalPages\<close> is 0 whatever the table holds; with 25
  rows, page 1 and limit 10 the page has 10 rows and \<open>totalPages\<close> is 0, not 3.
\<close>

theorem list_totalPages_never_counted:
  "q_count_exact (contacts_query opts) = False
   \<and> q_count_exact (applications_query opts sf pf) = False
   \<and> q_range_from (contacts_query opts) = (lo_page opts - 1) * lo_limit opts
   \<and> q_range_to (contacts_query opts) = (lo_page opts - 1) * lo_limit opts + lo_limit opts - 1
   \<and> q_range_from (applications_query opts sf pf) = (lo_page opts - 1) * lo_limit opts
   \<and> q_range_to (applications_query opts sf pf) = (lo_page opts - 1) * lo_limit opts + lo_limit opts - 1
   \<and> q_order_by (contacts_query opts) = lo_sortBy opts
   \<and> q_ascending (contacts_query opts) = (lo_sortOrder opts = ''asc'')
   \<and> q_order_by (applications_query opts sf pf) = lo_sortBy opts
   \<and> q_ascending (applications_query opts sf pf) = (lo_sortOrder opts = ''asc'')
   \<and> pr_total (getAllContacts opts rows) = None
   \<and> pr_totalPages (getAllContacts opts rows) = 0
   \<and> pr_total (getAllApplications opts sf pf rows) = None
   \<and> pr_totalPages (getAllApplications opts sf pf rows) = 0
   \<and> pr_totalPages (getAllContacts
        \<lparr>lo_page = 1, lo_limit = 10, lo_sortBy = ''created_at'', lo_sortOrder = ''desc''\<rparr>
        (replicate 25 r)) = 0
   \<and> length (pr_rows (getAllContacts
        \<lparr>lo_page = 1, lo_limit = 10, lo_sortBy = ''created_at'', lo_sortOrder = ''desc''\<rparr>
        (replicate 25 r))) = 10"
  by (simp add: contacts_query_def applications_query_def getAllContacts_def
      getAllApplications_def answer_def totalPages_of_null Let_def)

subsection \<open>The insert and its fallback\<close>

text \<open>
  C1. When the direct insert resolves with an error object, as a row-level-security
  denial does, \<open>createApplication\<close> raises the persistence error at once: the procedure
  \<open>insert_career_application\<close> is not called (the store, its call counter included, is
  unchanged), although it would have accepted the record. The procedure is called
  exactly when the awaited insert throws.
\<close>

theorem rls_denial_raises_without_fallback:
  "insert_application (be\<lparr>career_insert := Reject e, career_rpc := Accept\<rparr>) st row
     = (Inl (Error (''Database insertion failed: '' @ pg_message e)), st)
   \<and> rpc_calls (snd (insert_application be st row))
     = (case career_insert be of Throws m \<Rightarrow> Suc (rpc_calls st) | _ \<Rightarrow> rpc_calls st)
   \<and> createApplication (be\<lparr>career_insert := Reject rls_denial, career_rpc := Accept\<rparr>)
        now token st sample_application None
     = (Inl (Error (''Database insertion failed: '' @ pg_message rls_denial)), st)"
  by (simp add: insert_application_def createApplication_def insertData_of_def
      sample_application_def Let_def split: reply.splits)

subsection \<open>Sanitizers\<close>

text \<open>
  C6. Both sanitizers cut out \<open><script>alert(1)</script>\<close>, in any letter case, the
  prefix \<open>javascript:\<close> and an inline handler \<open>on...=\<close>; the contact sanitizer also cuts
  out an \<open>iframe\<close> element, and the career sanitizer leaves it in place.
\<close>

theorem sanitizers_on_samples:
  "sanitize_contact_value ''<script>alert(1)</script>'' = []
   \<and> sanitize_career_value ''<script>alert(1)</script>'' = []
   \<and> sanitize_contact_value ''Hi <SCRIPT src=x>alert(1)</Script> there'' = ''Hi  there''
   \<and> sanitize_career_value ''Hi <SCRIPT src=x>alert(1)</Script> there'' = ''Hi  there''
   \<and> sanitize_contact_value ''javascript:alert(1)'' = ''alert(1)''
   \<and> sanitize_career_value ''javascript:alert(1)'' = ''alert(1)''
   \<and> sanitize_contact_value ''<img src=x onerror=alert(1)>'' = ''<img src=x alert(1)>''
   \<and> sanitize_career_value ''<img src=x onerror=alert(1)>'' = ''<img src=x alert(1)>''
   \<and> sanitize_contact_value ''<iframe src=x></iframe>'' = []
   \<and> sanitize_career_value ''<iframe src=x></iframe>'' = ''<iframe src=x></iframe>''
   \<and> sanitizeCareerInput [(''coverLetter'', ''<iframe src=x></iframe>'')]
       = [(''coverLetter'', ''<iframe src=x></iframe>'')]"
proof -
  have 1: "sanitize_contact_value ''<script>alert(1)</script>'' = []" by code_simp
  have 2: "sanitize_career_value ''<script>alert(1)</script>'' = []" by code_simp
  have 3: "sanitize_contact_value ''Hi <SCRIPT src=x>alert(1)</Script> there'' = ''Hi  there''"
    by code_simp
  have 4: "sanitize_career_value ''Hi <SCRIPT src=x>alert(1)</Script> there'' = ''Hi  there''"
    by code_simp
  have 5: "sanitize_contact_value ''javascript:alert(1)'' = ''alert(1)''" by code_simp
  have 6: "sanitize_career_value ''javascript:alert(1)'' = ''alert(1)''" by code_simp
  have 7: "sanitize_contact_value ''<img src=x onerror=alert(1)>'' = ''<img src=x alert(1)>''"
    by code_simp
  have 8: "sanitize_career_value ''<img src=x onerror=alert(1)>'' = ''<img src=x alert(1)>''"
    by code_simp
  have 9: "sanitize_contact_value ''<iframe src=x></iframe>'' = []" by code_simp
  have 10: "sanitize_career_value ''<iframe src=x></iframe>'' = ''<iframe src=x></iframe>''"
    by code_simp
  have 11: "sanitizeCareerInput [(''coverLetter'', ''<iframe src=x></iframe>'')]
       = [(''coverLetter'', ''<iframe src=x></iframe>'')]"
    using 10 by (simp add: sanitizeCareerInput_def)
  from 1 2 3 4 5 6 7 8 9 10 11 show ?thesis by blast
qed

subsection \<open>Rate limiting\<close>

lemma rate_limit_skip: "rate_limit win mx True rej l a t = (Next (), l)"
  by (simp add: rate_limit_def)

lemma rate_limit_fresh:
  "l a = None \<Longrightarrow> 0 < mx \<Longrightarrow>
   rate_limit win mx False rej l a now = (Next (), l(a \<mapsto> (1, now + win)))"
  by (simp add: rate_limit_def increment_def Let_def)

lemma rate_limit_expired:
  "l a = Some (h, reset) \<Longrightarrow> reset \<le> now \<Longrightarrow> 0 < mx \<Longrightarrow>
   rate_limit win mx False rej l a now = (Next (), l(a \<mapsto> (1, now + win)))"
  by (simp add: rate_limit_def increment_def Let_def)

lemma rate_limit_open:
  "l a = Some (h, reset) \<Longrightarrow> now < reset \<Longrightarrow>
   rate_limit win mx False rej l a now
     = ((if mx < Suc h then Respond (rej\<lparr>headers := limit_headers reset now @ headers rej\<rparr>)
         else Next ()),
        l(a \<mapsto> (Suc h, reset)))"
  by (simp add: rate_limit_def increment_def Let_def)

lemma upt_Suc_shift: "[0..<Suc n] = 0 # map Suc [0..<n]"
  by (simp add: upt_conv_Cons map_Suc_upt del: upt_Suc)

lemma admissions_in_window:
  "l a = Some (h, reset) \<Longrightarrow> list_all (\<lambda>t. t < reset) ts \<Longrightarrow>
   admissions (rate_limit win mx False rej) l a ts = map (\<lambda>i. h + Suc i \<le> mx) [0..<length ts]"
proof (induction ts arbitrary: l h)
  case Nil
  then show ?case by simp
next
  case (Cons t ts)
  have step: "(fst (rate_limit win mx False rej l a t) = Next ()) = (Suc h \<le> mx)"
      "snd (rate_limit win mx False rej l a t) = l(a \<mapsto> (Suc h, reset))"
    using Cons.prems by (auto simp: rate_limit_open)
  have ih: "admissions (rate_limit win mx False rej) (l(a \<mapsto> (Suc h, reset))) a ts
        = map (\<lambda>i. Suc h + Suc i \<le> mx) [0..<length ts]"
    using Cons.prems by (intro Cons.IH) simp_all
  have "admissions (rate_limit win mx False rej) l a (t # ts)
        = (Suc h \<le> mx) # map (\<lambda>i. Suc h + Suc i \<le> mx) [0..<length ts]"
    using step ih by (simp add: split_beta)
  also have "\<dots> = map (\<lambda>i. h + Suc i \<le> mx) [0..<length (t # ts)]"
    by (simp add: upt_Suc_shift comp_def del: upt_Suc)
  finally show ?case .
qed

lemma admissions_then_expired:
  "l a = Some (h, reset) \<Longrightarrow> list_all (\<lambda>t. t < reset) ts \<Longrightarrow> reset \<le> t1 \<Longrightarrow> 0 < mx \<Longrightarrow>
   admissions (rate_limit win mx False rej) l a (ts @ [t1])
     = map (\<lambda>i. h + Suc i \<le> mx) [0..<length ts] @ [True]"
proof (induction ts arbitrary: l h)
  case Nil
  then show ?case by (simp add: rate_limit_expired)
next
  case (Cons t ts)
  have step: "(fst (rate_limit win mx False rej l a t) = Next ()) = (Suc h \<le> mx)"
      "snd (rate_limit win mx False rej l a t) = l(a \<mapsto> (Suc h, reset))"
    using Cons.prems by (auto simp: rate_limit_open)
  have ih: "admissions (rate_limit win mx False rej) (l(a \<mapsto> (Suc h, reset))) a (ts @ [t1])
        = map (\<lambda>i. Suc h + Suc i \<le> mx) [0..<length ts] @ [True]"
    using Cons.prems by (intro Cons.IH) simp_all
  have "admissions (rate_limit win mx False rej) l a ((t # ts) @ [t1])
        = (Suc h \<le> mx) # map (\<lambda>i. Suc h + Suc i \<le> mx) [0..<length ts] @ [True]"
    using step ih by (simp add: split_beta)
  also have "\<dots> = map (\<lambda>i. h + Suc i \<le> mx) [0..<length (t # ts)] @ [True]"
    by (simp add: upt_Suc_shift comp_def del: upt_Suc)
  finally show ?case .
qed

text \<open>The run of a new address: its first request opens the window, the requests
  before the reset time are let through up to the ceiling, and the first request at
  or after the reset time is let through again.\<close>

lemma admissions_fresh:
  assumes "l a = None" and "0 < mx"
      and "list_all (\<lambda>t. t < t0 + win) ts" and "t0 + win \<le> t1"
  shows "admissions (rate_limit win mx False rej) l a (t0 # ts @ [t1])
           = map (\<lambda>i. i < mx) [0..<Suc (length ts)] @ [True]"
proof -
  have first: "rate_limit win mx False rej l a t0 = (Next (), l(a \<mapsto> (1, t0 + win)))"
    using assms(1,2) by (rule rate_limit_fresh)
  have rest: "admissions (rate_limit win mx False rej) (l(a \<mapsto> (1, t0 + win))) a (ts @ [t1])
        = map (\<lambda>i. 1 + Suc i \<le> mx) [0..<length ts] @ [True]"
    using assms(2,3,4) by (intro admissions_then_expired) simp_all
  have "admissions (rate_limit win mx False rej) l a (t0 # ts @ [t1])
        = True # map (\<lambda>i. 1 + Suc i \<le> mx) [0..<length ts] @ [True]"
    using first rest by simp
  also have "\<dots> = map (\<lambda>i. i < mx) [0..<Suc (length ts)] @ [True]"
    using assms(2) by (simp add: upt_Suc_shift comp_def Suc_le_eq del: upt_Suc)
  finally show ?thesis .
qed

lemma seconds_left_ceiling:
  "reset - now \<le> 1000 * seconds_left reset now
   \<and> 1000 * seconds_left reset now < reset - now + 1000"
proof -
  define d where "d = reset - now"
  define q where "q = (d + 999) div 1000"
  define m where "m = (d + 999) mod 1000"
  have "1000 * q + m = d + 999"
    unfolding q_def m_def by (rule mult_div_mod_eq)
  moreover have "m < 1000"
    unfolding m_def by simp
  ultimately have "d \<le> 1000 * q \<and> 1000 * q < d + 1000"
    by linarith
  then show ?thesis
    by (simp add: seconds_left_def d_def q_def)
qed

text \<open>
  C7, as stated, fails twice: with \<open>NODE_ENV\<close> set to development the contact limiter
  is skipped, and a fourth request within the window is let through; and the window
  is a fixed one that the first request opens, so that across the boundary of two
  windows an address gets six career applications through within five milliseconds.
\<close>

theorem limit_ceiling_exceeded:
  "admissions (contactRateLimit (Some ''development'')) Map.empty ''203.0.113.7''
     [0, 1000, 2000, 3000]
   = [True, True, True, True]
   \<and> admissions (careerApplicationRateLimit ''2026-01-01T00:59:59.998Z'') Map.empty ''203.0.113.7''
       [0, 3599998, 3599999, 3600000, 3600001, 3600002]
     = [True, True, True, True, True, True]"
  by (simp add: contactRateLimit_def rate_limit_skip careerApplicationRateLimit_def
      rate_limit_def increment_def career_windowMs_def Let_def)

text \<open>
  C7, amended. Unless the limiter is skipped (the contact limiter, whenever \<open>NODE_ENV\<close>
  is development), the first request of an address is let through and opens a window
  of 15 minutes (contact) or 60 minutes (career); while the window is open the
  address is let through up to its third request and every further request is
  rejected with status 429, before the sanitizer and the validators and so whatever
  its content and with nothing stored, carrying in the \<open>Retry-After\<close> header the time
  left in the window, in whole seconds rounded up (the \<open>retryAfter\<close> field of the body
  is the window length, 900 or 3600); a request at or after the reset time is let
  through and opens a new window. The ceiling of 3 holds within each such window.
\<close>

theorem rate_limit_fixed_window:
  "(l a = None \<longrightarrow>
      careerApplicationRateLimit stamp l a now = (Next (), l(a \<mapsto> (1, now + career_windowMs)))
      \<and> (env \<noteq> Some ''development'' \<longrightarrow>
           contactRateLimit env l a now = (Next (), l(a \<mapsto> (1, now + contact_windowMs)))))
   \<and> (l a = Some (h, reset) \<and> now < reset \<and> h < 3 \<longrightarrow>
      careerApplicationRateLimit stamp l a now = (Next (), l(a \<mapsto> (Suc h, reset)))
      \<and> (env \<noteq> Some ''development'' \<longrightarrow>
           contactRateLimit env l a now = (Next (), l(a \<mapsto> (Suc h, reset)))))
   \<and> (l a = Some (h, reset) \<and> now < reset \<and> 3 \<le> h \<longrightarrow>
      careerApplicationRateLimit stamp l a now
        = (Respond (career_rejection stamp\<lparr>headers := limit_headers reset now\<rparr>),
           l(a \<mapsto> (Suc h, reset)))
      \<and> (env \<noteq> Some ''development'' \<longrightarrow>
           contactRateLimit env l a now
             = (Respond (contact_rejection\<lparr>headers := limit_headers reset now\<rparr>),
                l(a \<mapsto> (Suc h, reset)))))
   \<and> (l a = Some (h, reset) \<and> reset \<le> now \<longrightarrow>
      careerApplicationRateLimit stamp l a now = (Next (), l(a \<mapsto> (1, now + career_windowMs)))
      \<and> (env \<noteq> Some ''development'' \<longrightarrow>
           contactRateLimit env l a now = (Next (), l(a \<mapsto> (1, now + contact_windowMs)))))
   \<and> contactRateLimit (Some ''development'') l a now = (Next (), l)
   \<and> (l a = None \<and> list_all (\<lambda>t. t < t0 + career_windowMs) ts \<and> t0 + career_windowMs \<le> t1 \<longrightarrow>
      admissions (careerApplicationRateLimit stamp) l a (t0 # ts @ [t1])
        = map (\<lambda>i. i < 3) [0..<Suc (length ts)] @ [True])
   \<and> (l a = None \<and> list_all (\<lambda>t. t < t0 + contact_windowMs) ts \<and> t0 + contact_windowMs \<le> t1
       \<and> env \<noteq> Some ''development'' \<longrightarrow>
      admissions (contactRateLimit env) l a (t0 # ts @ [t1])
        = map (\<lambda>i. i < 3) [0..<Suc (length ts)] @ [True])
   \<and> map_of (limit_headers reset now) ''Retry-After'' = Some (nat_toString (seconds_left reset now))
   \<and> reset - now \<le> 1000 * seconds_left reset now
   \<and> 1000 * seconds_left reset now < reset - now + 1000
   \<and> status (career_rejection stamp) = 429
   \<and> jget (payload (career_rejection stamp)) ''retryAfter'' = Some (JNum 3600)
   \<and> status contact_rejection = 429
   \<and> jget (payload contact_rejection) ''retryAfter'' = Some (JNum 900)
   \<and> (fst (contactRateLimit (w_node_env w) lim (req_ip req) (req_time_ms req)) = Respond r \<longrightarrow>
        fst (post_contact w be (lim, st) req) = r \<and> snd (snd (post_contact w be (lim, st) req)) = st)
   \<and> (fst (careerApplicationRateLimit (req_time_iso (cr_request cr)) lim (req_ip (cr_request cr))
              (req_time_ms (cr_request cr))) = Respond r \<longrightarrow>
        fst (post_apply w be (lim, st) cr) = r \<and> snd (snd (post_apply w be (lim, st) cr)) = st)"
proof -
  have career_fun: "careerApplicationRateLimit stamp = rate_limit career_windowMs 3 False (career_rejection stamp)"
    by (intro ext) (simp add: careerApplicationRateLimit_def)
  have contact_fun: "env \<noteq> Some ''development'' \<Longrightarrow>
      contactRateLimit env = rate_limit contact_windowMs 3 False contact_rejection"
    by (intro ext) (simp add: contactRateLimit_def)
  have no_headers: "headers (career_rejection stamp) = []" "headers contact_rejection = []"
    by (simp_all add: career_rejection_def contact_rejection_def)
  have fresh: "l a = None \<longrightarrow>
      careerApplicationRateLimit stamp l a now = (Next (), l(a \<mapsto> (1, now + career_windowMs)))
      \<and> (env \<noteq> Some ''development'' \<longrightarrow>
           contactRateLimit env l a now = (Next (), l(a \<mapsto> (1, now + contact_windowMs))))"
    by (simp add: career_fun contact_fun rate_limit_fresh)
  have below: "l a = Some (h, reset) \<and> now < reset \<and> h < 3 \<longrightarrow>
      careerApplicationRateLimit stamp l a now = (Next (), l(a \<mapsto> (Suc h, reset)))
      \<and> (env \<noteq> Some ''development'' \<longrightarrow>
           contactRateLimit env l a now = (Next (), l(a \<mapsto> (Suc h, reset))))"
    by (simp add: career_fun contact_fun rate_limit_open)
  have above: "l a = Some (h, reset) \<and> now < reset \<and> 3 \<le> h \<longrightarrow>
      careerApplicationRateLimit stamp l a now
        = (Respond (career_rejection stamp\<lparr>headers := limit_headers reset now\<rparr>),
           l(a \<mapsto> (Suc h, reset)))
      \<and> (env \<noteq> Some ''development'' \<longrightarrow>
           contactRateLimit env l a now
             = (Respond (contact_rejection\<lparr>headers := limit_headers reset now\<rparr>),
                l(a \<mapsto> (Suc h, reset))))"
    by (simp add: career_fun contact_fun rate_limit_open no_headers)
  have expired: "l a = Some (h, reset) \<and> reset \<le> now \<longrightarrow>
      careerApplicationRateLimit stamp l a now = (Next (), l(a \<mapsto> (1, now + career_windowMs)))
      \<and> (env \<noteq> Some ''development'' \<longrightarrow>
           contactRateLimit env l a now = (Next (), l(a \<mapsto> (1, now + contact_windowMs))))"
    by (simp add: career_fun contact_fun rate_limit_expired)
  have skipped: "contactRateLimit (Some ''development'') l a now = (Next (), l)"
    by (simp add: contactRateLimit_def rate_limit_skip)
  have run_career: "l a = None \<and> list_all (\<lambda>t. t < t0 + career_windowMs) ts \<and> t0 + career_windowMs \<le> t1 \<longrightarrow>
      admissions (careerApplicationRateLimit stamp) l a (t0 # ts @ [t1])
        = map (\<lambda>i. i < 3) [0..<Suc (length ts)] @ [True]"
    unfolding career_fun by (intro impI, elim conjE, rule admissions_fresh) simp_all
  have run_contact: "l a = None \<and> list_all (\<lambda>t. t < t0 + contact_windowMs) ts \<and> t0 + contact_windowMs \<le> t1
       \<and> env \<noteq> Some ''development'' \<longrightarrow>
      admissions (contactRateLimit env) l a (t0 # ts @ [t1])
        = map (\<lambda>i. i < 3) [0..<Suc (length ts)] @ [True]"
  proof (intro impI, elim conjE)
    assume a: "l a = None" "list_all (\<lambda>t. t < t0 + contact_windowMs) ts"
      "t0 + contact_windowMs \<le> t1" "env \<noteq> Some ''development''"
    show "admissions (contactRateLimit env) l a (t0 # ts @ [t1])
        = map (\<lambda>i. i < 3) [0..<Suc (length ts)] @ [True]"
      unfolding contact_fun[OF a(4)] using a(1) _ a(2,3) by (rule admissions_fresh) simp
  qed
  have carried: "map_of (limit_headers reset now) ''Retry-After'' = Some (nat_toString (seconds_left reset now))"
    by (simp add: limit_headers_def)
  have lower: "reset - now \<le> 1000 * seconds_left reset now"
    using seconds_left_ceiling[of reset now] by (rule conjunct1)
  have upper: "1000 * seconds_left reset now < reset - now + 1000"
    using seconds_left_ceiling[of reset now] by (rule conjunct2)
  have bodies:
    "status (career_rejection stamp) = 429"
    "jget (payload (career_rejection stamp)) ''retryAfter'' = Some (JNum 3600)"
    "status contact_rejection = 429"
    "jget (payload contact_rejection) ''retryAfter'' = Some (JNum 900)"
    by (simp_all add: career_rejection_def contact_rejection_def)
  have contact_route: "fst (contactRateLimit (w_node_env w) lim (req_ip req) (req_time_ms req)) = Respond r \<longrightarrow>
        fst (post_contact w be (lim, st) req) = r \<and> snd (snd (post_contact w be (lim, st) req)) = st"
    by (cases "contactRateLimit (w_node_env w) lim (req_ip req) (req_time_ms req)")
       (auto simp: post_contact_def)
  have career_route: "fst (careerApplicationRateLimit (req_time_iso (cr_request cr)) lim (req_ip (cr_request cr))
              (req_time_ms (cr_request cr))) = Respond r \<longrightarrow>
        fst (post_apply w be (lim, st) cr) = r \<and> snd (snd (post_apply w be (lim, st) cr)) = st"
    by (cases "careerApplicationRateLimit (req_time_iso (cr_request cr)) lim (req_ip (cr_request cr))
              (req_time_ms (cr_request cr))")
       (auto simp: post_apply_def Let_def)
  show ?thesis
    by (intro conjI;
        fact fresh below above expired skipped run_career run_contact carried lower upper bodies
          contact_route career_route)
qed

lemma seconds_shown:
  "nat_toString (seconds_left 900000 3000) = ''897''"
  "nat_toString (seconds_left 3600000 600000) = ''3000''"
proof -
  have left: "seconds_left 900000 3000 = 897" "seconds_left 3600000 600000 = 3000"
    by (simp_all add: seconds_left_def)
  have "nat_toString 897 = ''897''" by code_simp
  then show "nat_toString (seconds_left 900000 3000) = ''897''"
    by (simp only: left)
  have "nat_toString 3000 = ''3000''" by code_simp
  then show "nat_toString (seconds_left 3600000 600000) = ''3000''"
    by (simp only: left)
qed

theorem rate_limit_fixed_window_witness:
  "contactRateLimit (Some ''production'') Map.empty ''203.0.113.7'' 0
     = (Next (), Map.empty(''203.0.113.7'' \<mapsto> (1, 900000)))
   \<and> contactRateLimit (Some ''production'') (Map.empty(''203.0.113.7'' \<mapsto> (1, 900000))) ''203.0.113.7'' 1000
     = (Next (), Map.empty(''203.0.113.7'' \<mapsto> (2, 900000)))
   \<and> contactRateLimit (Some ''production'') (Map.empty(''203.0.113.7'' \<mapsto> (2, 900000))) ''203.0.113.7'' 2000
     = (Next (), Map.empty(''203.0.113.7'' \<mapsto> (3, 900000)))
   \<and> contactRateLimit (Some ''production'') (Map.empty(''203.0.113.7'' \<mapsto> (3, 900000))) ''203.0.113.7'' 3000
     = (Respond (contact_rejection\<lparr>headers := [(''RateLimit-Reset'', ''897''), (''Retry-After'', ''897'')]\<rparr>),
        Map.empty(''203.0.113.7'' \<mapsto> (4, 900000)))
   \<and> contactRateLimit (Some ''production'') (Map.empty(''203.0.113.7'' \<mapsto> (4, 900000))) ''203.0.113.7'' 900000
     = (Next (), Map.empty(''203.0.113.7'' \<mapsto> (1, 1800000)))
   \<and> careerApplicationRateLimit ''2026-01-01T00:10:00.000Z''
        (Map.empty(''203.0.113.7'' \<mapsto> (3, 3600000))) ''203.0.113.7'' 600000
     = (Respond (career_rejection ''2026-01-01T00:10:00.000Z''
                   \<lparr>headers := [(''RateLimit-Reset'', ''3000''), (''Retry-After'', ''3000'')]\<rparr>),
        Map.empty(''203.0.113.7'' \<mapsto> (4, 3600000)))
   \<and> admissions (contactRateLimit (Some ''production'')) Map.empty ''203.0.113.7''
        [0, 1000, 2000, 3000, 900000]
     = [True, True, True, False, True]"
proof -
  let ?a = "''203.0.113.7''"
  let ?env = "Some ''production''"
  let ?stamp = "''2026-01-01T00:10:00.000Z''"
  have 1: "contactRateLimit ?env Map.empty ?a 0 = (Next (), Map.empty(?a \<mapsto> (1, 900000)))"
    using rate_limit_fixed_window[where l = Map.empty and a = ?a and now = 0 and env = ?env
        and stamp = ?stamp, THEN conjunct1]
    by (simp add: contact_windowMs_def)
  have 2: "contactRateLimit ?env (Map.empty(?a \<mapsto> (1, 900000))) ?a 1000
      = (Next (), Map.empty(?a \<mapsto> (2, 900000)))"
    using rate_limit_fixed_window[where l = "Map.empty(?a \<mapsto> (1, 900000))" and a = ?a
        and now = 1000 and env = ?env and h = 1 and reset = 900000 and stamp = ?stamp,
        THEN conjunct2, THEN conjunct1]
    by (simp add: numeral_2_eq_2)
  have 3: "contactRateLimit ?env (Map.empty(?a \<mapsto> (2, 900000))) ?a 2000
      = (Next (), Map.empty(?a \<mapsto> (3, 900000)))"
    using rate_limit_fixed_window[where l = "Map.empty(?a \<mapsto> (2, 900000))" and a = ?a
        and now = 2000 and env = ?env and h = 2 and reset = 900000 and stamp = ?stamp,
        THEN conjunct2, THEN conjunct1]
    by simp
  have 4: "contactRateLimit ?env (Map.empty(?a \<mapsto> (3, 900000))) ?a 3000
      = (Respond (contact_rejection\<lparr>headers := [(''RateLimit-Reset'', ''897''), (''Retry-After'', ''897'')]\<rparr>),
         Map.empty(?a \<mapsto> (4, 900000)))"
    using rate_limit_fixed_window[where l = "Map.empty(?a \<mapsto> (3, 900000))" and a = ?a
        and now = 3000 and env = ?env and h = 3 and reset = 900000 and stamp = ?stamp,
        THEN conjunct2, THEN conjunct2, THEN conjunct1]
    by (simp add: limit_headers_def seconds_shown)
  have 5: "contactRateLimit ?env (Map.empty(?a \<mapsto> (4, 900000))) ?a 900000
      = (Next (), Map.empty(?a \<mapsto> (1, 1800000)))"
    using rate_limit_fixed_window[where l = "Map.empty(?a \<mapsto> (4, 900000))" and a = ?a
        and now = 900000 and env = ?env and h = 4 and reset = 900000 and stamp = ?stamp,
        THEN conjunct2, THEN conjunct2, THEN conjunct2, THEN conjunct1]
    by (simp add: contact_windowMs_def)
  have 6: "careerApplicationRateLimit ?stamp (Map.empty(?a \<mapsto> (3, 3600000))) ?a 600000
     = (Respond (career_rejection ?stamp
                   \<lparr>headers := [(''RateLimit-Reset'', ''3000''), (''Retry-After'', ''3000'')]\<rparr>),
        Map.empty(?a \<mapsto> (4, 3600000)))"
    using rate_limit_fixed_window[where l = "Map.empty(?a \<mapsto> (3, 3600000))" and a = ?a
        and now = 600000 and env = ?env and h = 3 and reset = 3600000 and stamp = ?stamp,
        THEN conjunct2, THEN conjunct2, THEN conjunct1]
    by (simp add: limit_headers_def seconds_shown)
  have 7: "admissions (contactRateLimit ?env) Map.empty ?a [0, 1000, 2000, 3000, 900000]
     = [True, True, True, False, True]"
    using rate_limit_fixed_window[where l = Map.empty and a = ?a and env = ?env
        and ?t0.0 = 0 and ts = "[1000, 2000, 3000]" and ?t1.0 = 900000,
        THEN conjunct2, THEN conjunct2, THEN conjunct2, THEN conjunct2, THEN conjunct2,
        THEN conjunct2, THEN conjunct1]
    by (simp add: contact_windowMs_def upt_rec)
  show ?thesis
    by (intro conjI; fact 1 2 3 4 5 6 7)
qed

subsection \<open>Career applications without consent\<close>

lemma field_set_field_other: "k \<noteq> k' \<Longrightarrow> field (set_field b k' v) k = field b k"
  by (induction b) (auto simp: field_def)

lemma run_chain_field_other:
  "k \<noteq> path ch \<Longrightarrow> field (snd (run_chain lib ch b)) k = field b k"
  by (simp add: run_chain_def Let_def split_beta field_set_field_other)

lemma run_chains_field_other:
  "k \<notin> set (map path chs) \<Longrightarrow> field (snd (run_chains lib chs b)) k = field b k"
proof (induction chs arbitrary: b)
  case Nil
  then show ?case by simp
next
  case (Cons ch chs)
  then show ?case
    by (simp add: split_beta Let_def run_chain_field_other)
qed

lemma run_chains_append:
  "run_chains lib (xs @ ys) b =
     (fst (run_chains lib xs b) @ fst (run_chains lib ys (snd (run_chains lib xs b))),
      snd (run_chains lib ys (snd (run_chains lib xs b))))"
  by (induction xs arbitrary: b) (simp_all add: split_beta Let_def)

lemma sanitizeCareerInput_field:
  "field (sanitizeCareerInput b) k = map_option sanitize_career_value (field b k)"
  by (induction b) (auto simp: sanitizeCareerInput_def field_def)

lemma missing_consent_errors:
  assumes "field b ''consent'' = None"
  shows "\<exists>es. fst (run_chains lib validateCareerApplication (sanitizeCareerInput b)) = es @ [consent_error]"
proof -
  define front where "front = butlast validateCareerApplication"
  define lst where "lst = last validateCareerApplication"
  have split: "validateCareerApplication = front @ [lst]"
    unfolding front_def lst_def by (simp add: validateCareerApplication_def)
  have lst_eq: "lst = \<lparr>path = ''consent'', optional = False, items =
         [Check NotEmpty ''You must agree to the terms and conditions'']\<rparr>"
    unfolding lst_def by (simp add: validateCareerApplication_def)
  have paths: "''consent'' \<notin> set (map path front)"
    unfolding front_def by (simp add: validateCareerApplication_def)
  let ?b1 = "snd (run_chains lib front (sanitizeCareerInput b))"
  have "field ?b1 ''consent'' = None"
    using paths assms by (simp add: run_chains_field_other sanitizeCareerInput_field)
  then have "fst (run_chains lib [lst] ?b1) = [consent_error]"
    by (simp add: lst_eq run_chain_def consent_error_def to_str_def has_sanitizer_def)
  then show ?thesis
    unfolding split run_chains_append by simp
qed


text \<open>
  C4, as stated, fails: a request without consent whose attached file is of a refused
  type is answered by the upload filter's error, 400 with the file message alone and
  no entry for the consent field.
\<close>

theorem missing_consent_with_refused_file:
  "field (req_body (cr_request (career_request_of form_without_consent (Some resume_txt))))
     ''consent'' = None
   \<and> status (fst (post_apply production accepting (Map.empty, empty_store)
        (career_request_of form_without_consent (Some resume_txt)))) = 400
   \<and> jget (payload (fst (post_apply production accepting (Map.empty, empty_store)
        (career_request_of form_without_consent (Some resume_txt))))) ''errors''
     = Some (JArr [JStr ''Please upload a PDF, DOC, or DOCX file''])"
  by (simp add: career_request_of_def form_without_consent_def field_def post_apply_def
      careerApplicationRateLimit_def rate_limit_def increment_def career_windowMs_def Let_def
      upload_single_def resume_txt_def allowedTypes_def multer_error_response_def rejected_def)

text \<open>
  C4, amended. A request to \<open>POST /api/careers/apply\<close> without the consent field never
  inserts a row nor stores a file; when the rate limiter lets it through and the upload
  middleware accepts its file (or it has none), the answer is 400 with an entry for the
  consent field among the errors.
\<close>

theorem missing_consent_rejected:
  "field (req_body (cr_request cr)) ''consent'' = None \<Longrightarrow>
     snd (snd (post_apply w be (lim, st) cr)) = st
     \<and> (fst (careerApplicationRateLimit (req_time_iso (cr_request cr)) lim (req_ip (cr_request cr))
              (req_time_ms (cr_request cr))) = Next ()
        \<and> upload_single (cr_resume cr) = Inr file \<longrightarrow>
          status (fst (post_apply w be (lim, st) cr)) = 400
          \<and> (\<exists>errs. jget (payload (fst (post_apply w be (lim, st) cr))) ''errors'' = Some (JArr errs)
                \<and> JObj [(''field'', JStr ''consent''),
                         (''message'', JStr ''You must agree to the terms and conditions'')] \<in> set errs))"
proof -
  assume missing: "field (req_body (cr_request cr)) ''consent'' = None"
  let ?req = "cr_request cr"
  let ?lim = "careerApplicationRateLimit (req_time_iso ?req) lim (req_ip ?req) (req_time_ms ?req)"
  let ?b1 = "sanitizeCareerInput (req_body ?req)"
  let ?run = "run_chains (w_lib w) validateCareerApplication ?b1"
  obtain es where es: "fst ?run = es @ [consent_error]"
    using missing_consent_errors[OF missing] by blast
  have ctl: "career_controller env be now token st (fst ?run) (snd ?run) f
      = (validation_failed (map error_json (fst ?run)), st)" for env now token f
    using es by (simp add: career_controller_def)
  have passed: "upload_single (cr_resume cr) = Inr f \<Longrightarrow> snd ?lim = l' \<Longrightarrow> fst ?lim = Next () \<Longrightarrow>
      post_apply w be (lim, st) cr = (validation_failed (map error_json (fst ?run)), l', st)" for f l'
    by (cases ?lim) (simp add: post_apply_def Let_def split_beta ctl)
  have unchanged: "snd (snd (post_apply w be (lim, st) cr)) = st"
  proof (cases ?lim)
    case (Pair r l')
    show ?thesis
    proof (cases r)
      case (Next u)
      show ?thesis
      proof (cases "upload_single (cr_resume cr)")
        case (Inl e)
        with Pair Next show ?thesis by (simp add: post_apply_def Let_def)
      next
        case (Inr f)
        with Pair Next passed[of f l'] show ?thesis by simp
      qed
    next
      case (Respond x)
      with Pair show ?thesis by (simp add: post_apply_def Let_def)
    qed
  qed
  have answered: "fst ?lim = Next () \<and> upload_single (cr_resume cr) = Inr file \<longrightarrow>
          status (fst (post_apply w be (lim, st) cr)) = 400
          \<and> (\<exists>errs. jget (payload (fst (post_apply w be (lim, st) cr))) ''errors'' = Some (JArr errs)
                \<and> JObj [(''field'', JStr ''consent''),
                         (''message'', JStr ''You must agree to the terms and conditions'')] \<in> set errs)"
  proof (intro impI, elim conjE)
    assume a: "fst ?lim = Next ()" and u: "upload_single (cr_resume cr) = Inr file"
    have p: "post_apply w be (lim, st) cr = (validation_failed (map error_json (fst ?run)), snd ?lim, st)"
      using passed[OF u refl a] .
    show "status (fst (post_apply w be (lim, st) cr)) = 400
          \<and> (\<exists>errs. jget (payload (fst (post_apply w be (lim, st) cr))) ''errors'' = Some (JArr errs)
                \<and> JObj [(''field'', JStr ''consent''),
                         (''message'', JStr ''You must agree to the terms and conditions'')] \<in> set errs)"
      unfolding p by (simp add: validation_failed_def es error_json_def consent_error_def)
  qed
  from unchanged answered show ?thesis by blast
qed

theorem missing_consent_rejected_witness:
  "snd (snd (post_apply production accepting (Map.empty, empty_store)
        (career_request_of form_without_consent (Some resume_pdf)))) = empty_store
   \<and> status (fst (post_apply production accepting (Map.empty, empty_store)
        (career_request_of form_without_consent (Some resume_pdf)))) = 400"
proof -
  have m: "field (req_body (cr_request (career_request_of form_without_consent (Some resume_pdf)))) ''consent'' = None"
    by (simp add: career_request_of_def form_without_consent_def field_def)
  have l: "fst (careerApplicationRateLimit
             (req_time_iso (cr_request (career_request_of form_without_consent (Some resume_pdf))))
             Map.empty
             (req_ip (cr_request (career_request_of form_without_consent (Some resume_pdf))))
             (req_time_ms (cr_request (career_request_of form_without_consent (Some resume_pdf))))) = Next ()"
    by (simp add: careerApplicationRateLimit_def rate_limit_def increment_def Let_def)
  have u: "upload_single (cr_resume (career_request_of form_without_consent (Some resume_pdf))) = Inr (Some resume_pdf)"
    by (simp add: upload_single_def career_request_of_def resume_pdf_def allowedTypes_def)
  show ?thesis
    using missing_consent_rejected[OF m, of production accepting Map.empty empty_store "Some resume_pdf"] l u
    by blast
qed
subsection \<open>The contact scenario\<close>

lemma john_sanitized: "sanitizeInput contact_form = contact_form"
  by code_simp

lemma john_trims:
  "trim ''John Doe'' = ''John Doe''"
  "trim ''JOHN@Example.com'' = ''JOHN@Example.com''"
  "trim ''+14155550100'' = ''+14155550100''"
  "trim ''Hello, I have a question about your products.'' = ''Hello, I have a question about your products.''"
  "trim ''john@example.com'' = ''john@example.com''"
  "toLowerCase ''john@example.com'' = ''john@example.com''"
  "escape ''Hello, I have a question about your products.'' = ''Hello, I have a question about your products.''"
  by code_simp+

lemma john_tests:
  "test False contact_name_re ''John Doe''"
  "test False contact_number_re ''+14155550100''"
  "test False cfg_fullName_pattern ''John Doe''"
  "test False cfg_email_pattern ''john@example.com''"
  "test False cfg_contact_pattern ''+14155550100''"
  by code_simp+

lemma john_validated:
  assumes "isEmail lib ''JOHN@Example.com''"
      and "normalizeEmail lib ''JOHN@Example.com'' = ''john@example.com''"
  shows "run_chains lib validateContactForm contact_form =
           ([], [(''fullName'', ''John Doe''), (''email'', ''john@example.com''),
                 (''contact'', ''+14155550100''),
                 (''message'', ''Hello, I have a question about your products.'')])"
  using assms
  by (simp add: validateContactForm_def contact_form_def run_chain_def field_def
      has_sanitizer_def to_str_def john_trims john_tests)

lemma john_service_valid:
  "validateContactData [(''fullName'', ''John Doe''), (''email'', ''john@example.com''),
                 (''contact'', ''+14155550100''),
                 (''message'', ''Hello, I have a question about your products.'')] = []"
  by (simp add: validateContactData_def field_def truthy_def to_str_def john_trims john_tests
      cfg_fullName_minLength_def cfg_fullName_maxLength_def cfg_contact_minLength_def
      cfg_message_minLength_def cfg_message_maxLength_def)


lemma slice_message_unmarked:
  "str_includes ''contactRecord.id.slice is not a function'' ''Database'' = False"
  by code_simp

lemma john_controller:
  assumes "contact_insert be = Accept"
  shows "contact_controller env be now st []
           [(''fullName'', ''John Doe''), (''email'', ''john@example.com''),
            (''contact'', ''+14155550100''),
            (''message'', ''Hello, I have a question about your products.'')]
         = ((case contact_next_id be of
               IdNum n \<Rightarrow> failure_response env [''Database''] contact_apology
                            (TypeError ''contactRecord.id.slice is not a function'')
             | IdStr s \<Rightarrow>
                 \<lparr>status = 201,
                  headers = [],
                  payload = JObj
                    [(''success'', JBool True),
                     (''message'', JStr ''Thank you for contacting Africure Pharma! We will get back to you soon.''),
                     (''data'', JObj
                        [(''id'', JStr s),
                         (''submittedAt'', JStr (if truthy (contact_created_at be)
                                                 then to_str (contact_created_at be) else now)),
                         (''reference'', JStr (''AF-'' @ toUpperCase (slice_last 8 s)))])]\<rparr>),
            st\<lparr>contacts := contacts st @ [john_row (contact_next_id be) (contact_created_at be)]\<rparr>)"
  using assms
  by (cases "contact_next_id be")
     (simp_all add: contact_controller_def john_service_valid createContact_def field_def
        john_trims reference_def john_row_def Let_def)

text \<open>
  C2. For the scenario's request, let through by the limiter and accepted by the
  backend, the stored e-mail is \<open>john@example.com\<close>. The answer depends on the id the
  backend assigns: with a string id it is 201 with \<open>id\<close>, \<open>submittedAt\<close> and
  \<open>reference\<close>; with an integer id, building the reference throws after the insert
  and the answer is 500.
\<close>

theorem contact_scenario_by_id_type:
  "isEmail (w_lib w) ''JOHN@Example.com''
   \<and> normalizeEmail (w_lib w) ''JOHN@Example.com'' = ''john@example.com''
   \<and> fst (contactRateLimit (w_node_env w) lim (req_ip req) (req_time_ms req)) = Next ()
   \<and> req_body req = contact_form
   \<and> contact_insert be = Accept
   \<longrightarrow>
     contacts (snd (snd (post_contact w be (lim, st) req)))
       = contacts st @ [john_row (contact_next_id be) (contact_created_at be)]
     \<and> (contact_next_id be = IdNum n \<longrightarrow> status (fst (post_contact w be (lim, st) req)) = 500)
     \<and> (contact_next_id be = IdStr s \<longrightarrow>
          status (fst (post_contact w be (lim, st) req)) = 201
          \<and> jpath (payload (fst (post_contact w be (lim, st) req))) [''data'', ''id''] = Some (JStr s)
          \<and> jpath (payload (fst (post_contact w be (lim, st) req))) [''data'', ''reference'']
              = Some (JStr (''AF-'' @ toUpperCase (slice_last 8 s)))
          \<and> (\<exists>t. jpath (payload (fst (post_contact w be (lim, st) req))) [''data'', ''submittedAt'']
                = Some (JStr t)))"
proof (intro impI, elim conjE)
  assume e: "isEmail (w_lib w) ''JOHN@Example.com''"
    and n: "normalizeEmail (w_lib w) ''JOHN@Example.com'' = ''john@example.com''"
    and a: "fst (contactRateLimit (w_node_env w) lim (req_ip req) (req_time_ms req)) = Next ()"
    and b: "req_body req = contact_form"
    and i: "contact_insert be = Accept"
  let ?lim = "contactRateLimit (w_node_env w) lim (req_ip req) (req_time_ms req)"
  let ?ctl = "contact_controller (environment (w_node_env w)) be (req_time_iso req) st []
           [(''fullName'', ''John Doe''), (''email'', ''john@example.com''),
            (''contact'', ''+14155550100''),
            (''message'', ''Hello, I have a question about your products.'')]"
  have p: "post_contact w be (lim, st) req = (fst ?ctl, snd ?lim, snd ?ctl)"
    using a by (cases ?lim) (simp add: post_contact_def b john_sanitized john_validated[OF e n] split_beta)
  show "contacts (snd (snd (post_contact w be (lim, st) req)))
       = contacts st @ [john_row (contact_next_id be) (contact_created_at be)]
     \<and> (contact_next_id be = IdNum n \<longrightarrow> status (fst (post_contact w be (lim, st) req)) = 500)
     \<and> (contact_next_id be = IdStr s \<longrightarrow>
          status (fst (post_contact w be (lim, st) req)) = 201
          \<and> jpath (payload (fst (post_contact w be (lim, st) req))) [''data'', ''id''] = Some (JStr s)
          \<and> jpath (payload (fst (post_contact w be (lim, st) req))) [''data'', ''reference'']
              = Some (JStr (''AF-'' @ toUpperCase (slice_last 8 s)))
          \<and> (\<exists>t. jpath (payload (fst (post_contact w be (lim, st) req))) [''data'', ''submittedAt'']
                = Some (JStr t)))"
    unfolding p john_controller[OF i]
    by (simp add: failure_response_def slice_message_unmarked)
qed

lemma sample_email:
  "isEmail sample_validatorjs ''JOHN@Example.com''"
  "normalizeEmail sample_validatorjs ''JOHN@Example.com'' = ''john@example.com''"
  by code_simp+

theorem contact_scenario_by_id_type_witness:
  "contact_next_id accepting = IdNum 123
   \<and> status (fst (post_contact production accepting (Map.empty, empty_store) (request_of contact_form))) = 500
   \<and> contacts (snd (snd (post_contact production accepting (Map.empty, empty_store) (request_of contact_form))))
       = [john_row (IdNum 123) (Some ''2026-01-01T00:00:00.000Z'')]"
proof -
  have l: "fst (contactRateLimit (w_node_env production) Map.empty (req_ip (request_of contact_form))
             (req_time_ms (request_of contact_form))) = Next ()"
    by (simp add: contactRateLimit_def rate_limit_def increment_def Let_def production_def)
  have h: "isEmail (w_lib production) ''JOHN@Example.com''
   \<and> normalizeEmail (w_lib production) ''JOHN@Example.com'' = ''john@example.com''
   \<and> fst (contactRateLimit (w_node_env production) Map.empty (req_ip (request_of contact_form))
            (req_time_ms (request_of contact_form))) = Next ()
   \<and> req_body (request_of contact_form) = contact_form
   \<and> contact_insert accepting = Accept"
    using l by (simp add: production_def sample_email request_of_def accepting_def)
  show ?thesis
    using contact_scenario_by_id_type[of production Map.empty "request_of contact_form" accepting
        empty_store 123] h
    by (simp add: accepting_def empty_store_def)
qed

subsection \<open>The stored consent flag\<close>

lemma jane_sanitized: "sanitizeCareerInput form_without_consent = form_without_consent"
  by code_simp

lemma jane_trims:
  "trim ''Jane Doe'' = ''Jane Doe''"
  "trim ''jane.doe@example.com'' = ''jane.doe@example.com''"
  "trim ''+1234567890'' = ''+1234567890''"
  "trim ''Test City'' = ''Test City''"
  "trim ''supply-chain'' = ''supply-chain''"
  "trim ''2-3'' = ''2-3''"
  "trim ''bpharm'' = ''bpharm''"
  "toLowerCase ''jane.doe@example.com'' = ''jane.doe@example.com''"
  "extname ''cv.pdf'' = ''.pdf''"
  by code_simp+

lemma jane_tests:
  "test False career_name_re ''Jane Doe''"
  "test False phone_re ''+1234567890''"
  "test False cfg_email_pattern ''jane.doe@example.com''"
  by code_simp+

lemma jane_validated:
  assumes "isEmail lib ''jane.doe@example.com''"
      and "normalizeEmail lib ''jane.doe@example.com'' = ''jane.doe@example.com''"
      and "c \<noteq> []"
  shows "run_chains lib validateCareerApplication (form_without_consent @ [(''consent'', c)])
         = ([], form_without_consent @ [(''consent'', c)])"
  using assms
  by (simp add: validateCareerApplication_def form_without_consent_def run_chain_def field_def
      has_sanitizer_def to_str_def jane_trims jane_tests valid_positions_def)

lemma jane_service_valid:
  "c \<noteq> [] \<Longrightarrow> validateApplicationData (form_without_consent @ [(''consent'', c)]) = []"
  by (simp add: validateApplicationData_def requiredFields_def form_without_consent_def field_def
      truthy_def to_str_def jane_trims jane_tests)

lemma jane_created:
  assumes "career_insert be = Accept" and "storage_upload be = Accept" and "c \<noteq> ''on''"
  shows "createApplication be now token st
           (application_data_of (form_without_consent @ [(''consent'', c)])) (Some resume_pdf)
         = (Inr (result_of_row (jane_row be now token)),
            st\<lparr>files := files st @ [(''resumes/resume_'' @ token @ ''.pdf'', ''application/pdf'')],
               applications := applications st @ [jane_row be now token]\<rparr>)"
  using assms
  by (simp add: createApplication_def uploadResume_def resume_pdf_def jane_trims Let_def
      application_data_of_def form_without_consent_def field_def insertData_of_def truthy_def
      insert_application_def jane_row_def to_str_def)

text \<open>
  C5. The validators only ask that the consent field be non-empty, while the stored
  flag is true only for the string \<open>on\<close>: the sample application sent with any other
  non-empty consent (\<open>no\<close>, \<open>false\<close>, \<open>yes\<close>) is let through, answered 201 and
  written to \<open>Career_Applications\<close> with \<open>consent_given = false\<close>.
\<close>

theorem consent_other_than_on_stored_false:
  "isEmail (w_lib w) ''jane.doe@example.com''
   \<and> normalizeEmail (w_lib w) ''jane.doe@example.com'' = ''jane.doe@example.com''
   \<and> fst (careerApplicationRateLimit (req_time_iso (cr_request cr)) lim (req_ip (cr_request cr))
            (req_time_ms (cr_request cr))) = Next ()
   \<and> req_body (cr_request cr) = form_without_consent @ [(''consent'', c)]
   \<and> sanitize_career_value c = c \<and> c \<noteq> [] \<and> c \<noteq> ''on''
   \<and> cr_resume cr = Some resume_pdf
   \<and> career_insert be = Accept \<and> storage_upload be = Accept
   \<longrightarrow>
     status (fst (post_apply w be (lim, st) cr)) = 201
     \<and> applications (snd (snd (post_apply w be (lim, st) cr)))
         = applications st @ [jane_row be (req_time_iso (cr_request cr)) (cr_token cr)]
     \<and> col_consent_given (jane_row be (req_time_iso (cr_request cr)) (cr_token cr)) = False"
proof (intro impI, elim conjE)
  assume e: "isEmail (w_lib w) ''jane.doe@example.com''"
    and n: "normalizeEmail (w_lib w) ''jane.doe@example.com'' = ''jane.doe@example.com''"
    and a: "fst (careerApplicationRateLimit (req_time_iso (cr_request cr)) lim (req_ip (cr_request cr))
            (req_time_ms (cr_request cr))) = Next ()"
    and b: "req_body (cr_request cr) = form_without_consent @ [(''consent'', c)]"
    and s: "sanitize_career_value c = c" and c0: "c \<noteq> []" and c1: "c \<noteq> ''on''"
    and f: "cr_resume cr = Some resume_pdf"
    and i: "career_insert be = Accept" and u: "storage_upload be = Accept"
  let ?lim = "careerApplicationRateLimit (req_time_iso (cr_request cr)) lim (req_ip (cr_request cr))
            (req_time_ms (cr_request cr))"
  let ?row = "jane_row be (req_time_iso (cr_request cr)) (cr_token cr)"
  have san: "sanitizeCareerInput (req_body (cr_request cr)) = form_without_consent @ [(''consent'', c)]"
    using jane_sanitized s by (simp add: b sanitizeCareerInput_def)
  have up: "upload_single (cr_resume cr) = Inr (Some resume_pdf)"
    by (simp add: f upload_single_def resume_pdf_def allowedTypes_def)
  have ok: "mimetype resume_pdf \<in> set allowedTypes" "\<not> size_bytes resume_pdf > maxSize"
    by (simp_all add: resume_pdf_def allowedTypes_def maxSize_def)
  have ctl: "career_controller env be now token st [] (form_without_consent @ [(''consent'', c)])
               (Some resume_pdf)
             = (\<lparr>status = 201,
                 headers = [],
                 payload = JObj
                   [(''success'', JBool True),
                    (''message'', JStr ''Thank you for your application! We have received your details and will get back to you soon.''),
                    (''data'', JObj
                       [(''applicationNumber'', JStr (res_applicationNumber (result_of_row (jane_row be now token)))),
                        (''id'', JNum (int (res_id (result_of_row (jane_row be now token))))),
                        (''submittedAt'', JStr (res_submittedAt (result_of_row (jane_row be now token)))),
                        (''position'', JStr (res_position (result_of_row (jane_row be now token)))),
                        (''status'', JStr (res_status (result_of_row (jane_row be now token))))])]\<rparr>,
                st\<lparr>files := files st @ [(''resumes/resume_'' @ token @ ''.pdf'', ''application/pdf'')],
                   applications := applications st @ [jane_row be now token]\<rparr>)" for env now token
    by (simp add: career_controller_def jane_service_valid[OF c0] jane_created[OF i u c1] ok)
  have p: "post_apply w be (lim, st) cr
      = (fst (career_controller (environment (w_node_env w)) be (req_time_iso (cr_request cr))
                (cr_token cr) st [] (form_without_consent @ [(''consent'', c)]) (Some resume_pdf)),
         snd ?lim,
         snd (career_controller (environment (w_node_env w)) be (req_time_iso (cr_request cr))
                (cr_token cr) st [] (form_without_consent @ [(''consent'', c)]) (Some resume_pdf)))"
    using a by (cases ?lim) (simp add: post_apply_def Let_def up san jane_validated[OF e n c0] split_beta)
  show "status (fst (post_apply w be (lim, st) cr)) = 201
     \<and> applications (snd (snd (post_apply w be (lim, st) cr))) = applications st @ [?row]
     \<and> col_consent_given ?row = False"
    unfolding p ctl by (simp add: jane_row_def)
qed

lemma jane_sample:
  "isEmail sample_validatorjs ''jane.doe@example.com''"
  "normalizeEmail sample_validatorjs ''jane.doe@example.com'' = ''jane.doe@example.com''"
  "sanitize_career_value ''no'' = ''no''"
  by code_simp+

theorem consent_other_than_on_stored_false_witness:
  "status (fst (post_apply production accepting (Map.empty, empty_store)
       (career_request_of (form_without_consent @ [(''consent'', ''no'')]) (Some resume_pdf)))) = 201
   \<and> map col_consent_given (applications (snd (snd (post_apply production accepting (Map.empty, empty_store)
       (career_request_of (form_without_consent @ [(''consent'', ''no'')]) (Some resume_pdf))))))
     = [False]"
proof -
  let ?cr = "career_request_of (form_without_consent @ [(''consent'', ''no'')]) (Some resume_pdf)"
  have l: "fst (careerApplicationRateLimit (req_time_iso (cr_request ?cr)) Map.empty
             (req_ip (cr_request ?cr)) (req_time_ms (cr_request ?cr))) = Next ()"
    by (simp add: careerApplicationRateLimit_def rate_limit_def increment_def Let_def)
  have h: "isEmail (w_lib production) ''jane.doe@example.com''
   \<and> normalizeEmail (w_lib production) ''jane.doe@example.com'' = ''jane.doe@example.com''
   \<and> fst (careerApplicationRateLimit (req_time_iso (cr_request ?cr)) Map.empty (req_ip (cr_request ?cr))
            (req_time_ms (cr_request ?cr))) = Next ()
   \<and> req_body (cr_request ?cr) = form_without_consent @ [(''consent'', ''no'')]
   \<and> sanitize_career_value ''no'' = ''no'' \<and> ''no'' \<noteq> [] \<and> ''no'' \<noteq> ''on''
   \<and> cr_resume ?cr = Some resume_pdf
   \<and> career_insert accepting = Accept \<and> storage_upload accepting = Accept"
    using l by (simp add: production_def jane_sample career_request_of_def accepting_def)
  show ?thesis
    using consent_other_than_on_stored_false[of production ?cr Map.empty "''no''" accepting empty_store] h
    by (simp add: empty_store_def)
qed

subsection \<open>Trimming and escaping\<close>













subsection \<open>What the anchored patterns accept\<close>






















subsection \<open>Contact submissions that pass validation\<close>














end
